theory Spec2Isabelle
  imports
    Main
    "HOL-Library.Char_ord"
    "HOL-Library.List_Lexorder"
    "HOL-Library.Sublist"
    "HOL-Library.Multiset"
begin

section \<open>The schema converter of \<^verbatim>\<open>scripts/upgrade_dbt_schema_tests_v1_to_v2.py\<close>\<close>

text \<open>
  The conversion works on the tree that \<^verbatim>\<open>yaml.safe_load\<close> returns. The script is
  dynamically typed and checks almost nothing, so the embedding keeps the whole tree
  dynamic and writes out what Python (version 3: dictionaries iterate in insertion order,
  values of unrelated types do not compare) does on every shape: the value, or the
  exception raised.

  Values are \<^verbatim>\<open>None\<close>, booleans, integers, strings, lists and dictionaries whose
  keys are scalars (the loader refuses unhashable keys). Floats and timestamps are left out.
  A string is a list of characters compared by character code, as Python compares text;
  the characters are the 256 of type \<open>char\<close>.
  A dictionary is an association list in iteration order; lookups take the first entry
  whose key Python considers equal.
\<close>

subsection \<open>Python values and exceptions\<close>

datatype scalar = PyNone | PyBool bool | PyInt int | PyStr string

datatype yaml = Scalar scalar | Seq "yaml list" | Dict "(scalar \<times> yaml) list"

text \<open>
  \<open>OperationalError fmt args\<close> stands for \<^verbatim>\<open>OperationalError(fmt.format(*args))\<close>:
  the template and the values substituted into it.
\<close>

datatype exn =
    OperationalError string "yaml list"
  | ValueError string
  | NameError string
  | TypeError
  | AttributeError
  | KeyError

text \<open>
  Hashing and equality of dictionary keys: \<^verbatim>\<open>True == 1\<close> and \<^verbatim>\<open>False == 0\<close>, every
  other pair of scalars of different types is unequal.
\<close>

fun key_norm :: "scalar \<Rightarrow> scalar" where
  "key_norm (PyBool b) = PyInt (if b then 1 else 0)"
| "key_norm s = s"

definition py_eq :: "scalar \<Rightarrow> scalar \<Rightarrow> bool" where
  "py_eq a b = (key_norm a = key_norm b)"

fun dict_find :: "scalar \<Rightarrow> (scalar \<times> 'v) list \<Rightarrow> 'v option" where
  "dict_find k [] = None"
| "dict_find k ((k', v) # kvs) = (if py_eq k' k then Some v else dict_find k kvs)"

text \<open>\<^verbatim>\<open>s in x\<close> for a string \<open>s\<close>: key membership in a dictionary, element membership
  in a list, substring test in a string, \<^verbatim>\<open>TypeError\<close> on anything else.\<close>

fun py_in :: "string \<Rightarrow> yaml \<Rightarrow> exn + bool" where
  "py_in s (Dict kvs) = Inr (dict_find (PyStr s) kvs \<noteq> None)"
| "py_in s (Seq xs) = Inr (Scalar (PyStr s) \<in> set xs)"
| "py_in s (Scalar (PyStr t)) = Inr (sublist s t)"
| "py_in s (Scalar _) = Inl TypeError"

text \<open>\<^verbatim>\<open>x[s]\<close> for a string \<open>s\<close>: only a dictionary can be indexed by a string.\<close>

fun py_getitem :: "yaml \<Rightarrow> string \<Rightarrow> exn + yaml" where
  "py_getitem (Dict kvs) s =
     (case dict_find (PyStr s) kvs of None \<Rightarrow> Inl KeyError | Some v \<Rightarrow> Inr v)"
| "py_getitem _ s = Inl TypeError"

text \<open>\<^verbatim>\<open>x.items()\<close>: only dictionaries have the method.\<close>

fun py_items :: "yaml \<Rightarrow> exn + (scalar \<times> yaml) list" where
  "py_items (Dict kvs) = Inr kvs"
| "py_items _ = Inl AttributeError"

subsection \<open>Sorting with a key function\<close>

text \<open>
  \<^verbatim>\<open>sorted(xs, key=f)\<close> and \<^verbatim>\<open>xs.sort(key=f)\<close> first compute the key of every
  element (an exception of \<open>f\<close> propagates), then sort the elements by their keys. The
  sort is stable. A list of fewer than two elements is not compared at all. Strings
  compare with strings, numbers (integers and booleans) with numbers; any other
  comparison raises \<^verbatim>\<open>TypeError\<close>.
\<close>

fun map_exn :: "('a \<Rightarrow> exn + 'b) \<Rightarrow> 'a list \<Rightarrow> exn + 'b list" where
  "map_exn f [] = Inr []"
| "map_exn f (x # xs) =
     (case f x of
        Inl e \<Rightarrow> Inl e
      | Inr y \<Rightarrow> (case map_exn f xs of Inl e \<Rightarrow> Inl e | Inr ys \<Rightarrow> Inr (y # ys)))"

fun is_str :: "scalar \<Rightarrow> bool" where
  "is_str (PyStr s) = True"
| "is_str _ = False"

fun is_numeric :: "scalar \<Rightarrow> bool" where
  "is_numeric (PyInt i) = True"
| "is_numeric (PyBool b) = True"
| "is_numeric _ = False"

fun str_of :: "scalar \<Rightarrow> string" where
  "str_of (PyStr s) = s"
| "str_of _ = []"

fun num_of :: "scalar \<Rightarrow> int" where
  "num_of (PyInt i) = i"
| "num_of (PyBool b) = (if b then 1 else 0)"
| "num_of _ = 0"

definition py_sort :: "('a \<Rightarrow> exn + scalar) \<Rightarrow> 'a list \<Rightarrow> exn + 'a list" where
  "py_sort key xs =
     (case map_exn key xs of
        Inl e \<Rightarrow> Inl e
      | Inr ks \<Rightarrow>
          if length ks < 2 then Inr xs
          else if list_all is_str ks then
            Inr (map snd (sort_key (\<lambda>p. str_of (fst p)) (zip ks xs)))
          else if list_all is_numeric ks then
            Inr (map snd (sort_key (\<lambda>p. num_of (fst p)) (zip ks xs)))
          else Inl TypeError)"

subsection \<open>Records built by the converter\<close>

text \<open>
  A test entry is what \<^verbatim>\<open>add_test\<close> is called with: the test name itself
  (\<open>Bare\<close>), or the one-key dictionary \<^verbatim>\<open>{test_name: test_value}\<close> (\<open>Single\<close>).
  A column is the dictionary \<^verbatim>\<open>{'name': ..., 'tests': [...]}\<close>. A model is the
  dictionary \<^verbatim>\<open>{'name': ...}\<close> with the optional keys \<^verbatim>\<open>'tests'\<close> and
  \<^verbatim>\<open>'columns'\<close>: \<open>None\<close> is the absent key.
\<close>

datatype test_entry = Bare scalar | Single scalar "(scalar \<times> yaml) list"

record column =
  c_name :: scalar
  c_tests :: "test_entry list"

record model =
  m_name :: scalar
  m_tests :: "test_entry list option"
  m_columns :: "column list option"

record document =
  version :: int
  models :: "model list"

subsection \<open>\<^verbatim>\<open>sort_keyfunc\<close> and \<^verbatim>\<open>sorted_column_list\<close>\<close>

text \<open>
  \<^verbatim>\<open>
  def sort_keyfunc(item):
      if isinstance(item, basestring):
          return item
      else:
          return list(item)[0]
  \<close>
  A string is its own key; anything else goes through \<^verbatim>\<open>list(item)[0]\<close>, the first
  key of a dictionary, which fails on a scalar that is not a string.
\<close>

fun sort_keyfunc :: "test_entry \<Rightarrow> exn + scalar" where
  "sort_keyfunc (Bare (PyStr s)) = Inr (PyStr s)"
| "sort_keyfunc (Bare _) = Inl TypeError"
| "sort_keyfunc (Single k v) = Inr k"

text \<open>
  \<^verbatim>\<open>
  def sorted_column_list(column_dict):
      columns = []
      for column in sorted(column_dict.values(), key=lambda c: c['name']):
          column['tests'].sort(key=sort_keyfunc)
          columns.append(column)
      return columns
  \<close>
  \<open>sort_tests_loop\<close> is the \<^verbatim>\<open>for\<close> loop, with the list \<^verbatim>\<open>columns\<close> built so far.
\<close>

fun sort_tests_loop :: "column list \<Rightarrow> column list \<Rightarrow> exn + column list" where
  "sort_tests_loop [] cs = Inr cs"
| "sort_tests_loop (column # rest) cs =
     (case py_sort sort_keyfunc (c_tests column) of
        Inl e \<Rightarrow> Inl e
      | Inr ts \<Rightarrow> sort_tests_loop rest (cs @ [column\<lparr>c_tests := ts\<rparr>]))"

definition sorted_column_list :: "(scalar \<times> column) list \<Rightarrow> exn + column list" where
  "sorted_column_list column_dict =
     (case py_sort (\<lambda>c. Inr (c_name c)) (map snd column_dict) of
        Inl e \<Rightarrow> Inl e
      | Inr cs \<Rightarrow> sort_tests_loop cs [])"

subsection \<open>\<^verbatim>\<open>ModelTestBuilder\<close>\<close>

text \<open>
  The state of a builder is its three attributes; \<^verbatim>\<open>self.columns\<close> is a dictionary
  from column name to column. Every method takes the state and returns the new one, or
  the exception it raises.
\<close>

record builder =
  model_name :: scalar
  columns :: "(scalar \<times> column) list"
  model_tests :: "test_entry list"

definition SIMPLE_COLUMN_TESTS :: "scalar set" where
  "SIMPLE_COLUMN_TESTS = {PyStr ''unique'', PyStr ''not_null''}"

definition COMPLEX_COLUMN_TESTS :: "(scalar \<times> string) list" where
  "COMPLEX_COLUMN_TESTS =
     [(PyStr ''relationships'', ''from''), (PyStr ''accepted_values'', ''field'')]"

definition init_builder :: "scalar \<Rightarrow> builder" where
  "init_builder name = \<lparr>model_name = name, columns = [], model_tests = []\<rparr>"

text \<open>
  \<^verbatim>\<open>
  def get_column(self, column_name):
      if column_name in self.columns:
          return self.columns[column_name]
      column = {'name': column_name, 'tests': []}
      self.columns[column_name] = column
      return column
  \<close>
  \<^verbatim>\<open>column_name in self.columns\<close> hashes the name: a list or a dictionary is unhashable.
\<close>

definition get_column :: "yaml \<Rightarrow> builder \<Rightarrow> exn + (column \<times> builder)" where
  "get_column column_name b =
     (case column_name of
        Scalar k \<Rightarrow>
          (case dict_find k (columns b) of
             Some column \<Rightarrow> Inr (column, b)
           | None \<Rightarrow>
               (let column = \<lparr>c_name = k, c_tests = []\<rparr>
                in Inr (column, b\<lparr>columns := columns b @ [(k, column)]\<rparr>)))
      | _ \<Rightarrow> Inl TypeError)"

text \<open>
  \<^verbatim>\<open>
  def add_test(self, column_name, test_name):
      column = self.get_column(column_name)
      column['tests'].append(test_name)
  \<close>
  The column returned by \<^verbatim>\<open>get_column\<close> is the object stored in \<^verbatim>\<open>self.columns\<close>, so
  appending to its test list changes that entry of the dictionary: \<open>append_test\<close> finds
  it again by the name the column carries.
\<close>

fun append_test :: "scalar \<Rightarrow> test_entry \<Rightarrow> (scalar \<times> column) list \<Rightarrow> (scalar \<times> column) list" where
  "append_test k t [] = []"
| "append_test k t ((k', c) # rest) =
     (if py_eq k' k then (k', c\<lparr>c_tests := c_tests c @ [t]\<rparr>) # rest
      else (k', c) # append_test k t rest)"

definition add_test :: "yaml \<Rightarrow> test_entry \<Rightarrow> builder \<Rightarrow> exn + builder" where
  "add_test column_name test_name b =
     (case get_column column_name b of
        Inl e \<Rightarrow> Inl e
      | Inr (column, b') \<Rightarrow>
          Inr (b'\<lparr>columns := append_test (c_name column) test_name (columns b')\<rparr>))"

fun handle_simple_column :: "yaml list \<Rightarrow> scalar \<Rightarrow> builder \<Rightarrow> exn + builder" where
  "handle_simple_column [] test_name b = Inr b"
| "handle_simple_column (column_name # rest) test_name b =
     (case add_test column_name (Bare test_name) b of
        Inl e \<Rightarrow> Inl e
      | Inr b' \<Rightarrow> handle_simple_column rest test_name b')"

text \<open>
  \<^verbatim>\<open>
  def handle_complex_column(self, test_values, test_name):
      column_key = self.COMPLEX_COLUMN_TESTS[test_name]
      for dct in test_values:
          if column_key not in dct:
              raise OperationalError(
                  'got an invalid {} test in model {}, no "{}" value in {}'
                  .format(test_name, self.model_name, column_key, dct)
              )
          column_name = dct[column_key]
          test_value = {k: v for k, v in dct.items() if k != column_key}
          value = {test_name: test_value}
          self.add_test(column_name, value)
  \<close>
  \<open>complex_loop\<close> is the \<^verbatim>\<open>for\<close> loop.
\<close>

fun complex_loop :: "string \<Rightarrow> yaml list \<Rightarrow> scalar \<Rightarrow> builder \<Rightarrow> exn + builder" where
  \<open>complex_loop column_key [] test_name b = Inr b\<close>
| \<open>complex_loop column_key (dct # rest) test_name b =
     (case py_in column_key dct of
        Inl e \<Rightarrow> Inl e
      | Inr False \<Rightarrow>
          Inl (OperationalError ''got an invalid {} test in model {}, no "{}" value in {}''
                 [Scalar test_name, Scalar (model_name b), Scalar (PyStr column_key), dct])
      | Inr True \<Rightarrow>
          (case py_getitem dct column_key of
             Inl e \<Rightarrow> Inl e
           | Inr column_name \<Rightarrow>
               (case py_items dct of
                  Inl e \<Rightarrow> Inl e
                | Inr items \<Rightarrow>
                    (let test_value = filter (\<lambda>(k, v). k \<noteq> PyStr column_key) items;
                         value = Single test_name test_value
                     in case add_test column_name value b of
                          Inl e \<Rightarrow> Inl e
                        | Inr b' \<Rightarrow> complex_loop column_key rest test_name b'))))\<close>

definition handle_complex_column :: "yaml list \<Rightarrow> scalar \<Rightarrow> builder \<Rightarrow> exn + builder" where
  "handle_complex_column test_values test_name b =
     (case dict_find test_name COMPLEX_COLUMN_TESTS of
        None \<Rightarrow> Inl KeyError
      | Some column_key \<Rightarrow> complex_loop column_key test_values test_name b)"

text \<open>
  \<^verbatim>\<open>
  def populate_test(self, test_name, test_values):
      if not isinstance(test_values, list):
          raise OperationalError(
              'Expected type "list" for test values in constraints '
              'under test {} inside model {}, got "{}"'.format(
                  test_name, model_name, type(test_values)
              )
          )
      if test_name in self.SIMPLE_COLUMN_TESTS:
          self.handle_simple_column(test_values, test_name)
      elif test_name in self.COMPLEX_COLUMN_TESTS:
          self.handle_complex_column(test_values, test_name)
      else:
          raise ValueError('cannot handle any other tests')
  \<close>
  The message of the first \<^verbatim>\<open>raise\<close> is formatted from \<^verbatim>\<open>model_name\<close>, a name that
  is bound neither in the method nor in the module (the attribute is
  \<^verbatim>\<open>self.model_name\<close>): evaluating it raises \<^verbatim>\<open>NameError\<close> before the
  \<^verbatim>\<open>OperationalError\<close> is built.
\<close>

definition populate_test :: "scalar \<Rightarrow> yaml \<Rightarrow> builder \<Rightarrow> exn + builder" where
  "populate_test test_name test_values b =
     (case test_values of
        Seq vs \<Rightarrow>
          if test_name \<in> SIMPLE_COLUMN_TESTS then handle_simple_column vs test_name b
          else if dict_find test_name COMPLEX_COLUMN_TESTS \<noteq> None then
            handle_complex_column vs test_name b
          else Inl (ValueError ''cannot handle any other tests'')
      | _ \<Rightarrow> Inl (NameError ''model_name''))"

fun populate_loop :: "(scalar \<times> yaml) list \<Rightarrow> builder \<Rightarrow> exn + builder" where
  "populate_loop [] b = Inr b"
| "populate_loop ((test_name, test_values) # rest) b =
     (case populate_test test_name test_values b of
        Inl e \<Rightarrow> Inl e
      | Inr b' \<Rightarrow> populate_loop rest b')"

definition populate_from_constraints :: "yaml \<Rightarrow> builder \<Rightarrow> exn + builder" where
  "populate_from_constraints constraints b =
     (case py_items constraints of
        Inl e \<Rightarrow> Inl e
      | Inr items \<Rightarrow> populate_loop items b)"

text \<open>
  \<^verbatim>\<open>
  def generate_model_dict(self):
      model = {'name': self.model_name}
      if self.model_tests:
          model['tests'] = self.model_tests
      if self.columns:
          model['columns'] = sorted_column_list(self.columns)
      return model
  \<close>
\<close>

definition generate_model_dict :: "builder \<Rightarrow> exn + model" where
  "generate_model_dict b =
     (let model = \<lparr>m_name = model_name b, m_tests = None, m_columns = None\<rparr>;
          model = (if model_tests b \<noteq> [] then model\<lparr>m_tests := Some (model_tests b)\<rparr>
                   else model)
      in if columns b \<noteq> [] then
           (case sorted_column_list (columns b) of
              Inl e \<Rightarrow> Inl e
            | Inr cs \<Rightarrow> Inr (model\<lparr>m_columns := Some cs\<rparr>))
         else Inr model)"

subsection \<open>\<^verbatim>\<open>convert_schema\<close>\<close>

text \<open>
  \<^verbatim>\<open>
  def convert_schema(initial):
      models = []
      for model_name, model_data in initial.items():
          if 'constraints' not in model_data:
              continue
          builder = ModelTestBuilder(model_name)
          builder.populate_from_constraints(model_data['constraints'])
          model = builder.generate_model_dict()
          models.append(model)
      return {'version': 2, 'models': models}
  \<close>
  \<open>convert_loop\<close> is the \<^verbatim>\<open>for\<close> loop, with the list \<^verbatim>\<open>models\<close> built so far.
\<close>

fun convert_loop :: "(scalar \<times> yaml) list \<Rightarrow> model list \<Rightarrow> exn + model list" where
  "convert_loop [] ms = Inr ms"
| "convert_loop ((name, model_data) # rest) ms =
     (case py_in ''constraints'' model_data of
        Inl e \<Rightarrow> Inl e
      | Inr False \<Rightarrow> convert_loop rest ms
      | Inr True \<Rightarrow>
          (case py_getitem model_data ''constraints'' of
             Inl e \<Rightarrow> Inl e
           | Inr constraints \<Rightarrow>
               (case populate_from_constraints constraints (init_builder name) of
                  Inl e \<Rightarrow> Inl e
                | Inr b \<Rightarrow>
                    (case generate_model_dict b of
                       Inl e \<Rightarrow> Inl e
                     | Inr model \<Rightarrow> convert_loop rest (ms @ [model])))))"

definition convert_schema :: "yaml \<Rightarrow> exn + document" where
  "convert_schema initial =
     (case py_items initial of
        Inl e \<Rightarrow> Inl e
      | Inr items \<Rightarrow>
          (case convert_loop items [] of
             Inl e \<Rightarrow> Inl e
           | Inr ms \<Rightarrow> Inr \<lparr>version = 2, models = ms\<rparr>))"

section \<open>Vocabulary of the properties\<close>

text \<open>
  Nothing below is part of the script. These definitions name what the properties talk
  about: Python's order on scalars, the invariant of a builder, the entries a constraints
  mapping declares, and the sample of the script's own unit test.
\<close>

subsection \<open>Order and keys\<close>

text \<open>\<^verbatim>\<open>a < b\<close> on scalars: strings compare by character code, lexicographically;
  integers and booleans compare as numbers; every other pair raises \<^verbatim>\<open>TypeError\<close>.\<close>

fun py_lt :: "scalar \<Rightarrow> scalar \<Rightarrow> exn + bool" where
  "py_lt (PyStr a) (PyStr b) = Inr (a < b)"
| "py_lt a b = (if is_numeric a \<and> is_numeric b then Inr (num_of a < num_of b) else Inl TypeError)"

text \<open>The key of an element whose key function succeeded.\<close>

definition key_val :: "('a \<Rightarrow> exn + scalar) \<Rightarrow> 'a \<Rightarrow> scalar" where
  "key_val key x = (case key x of Inr k \<Rightarrow> k | Inl e \<Rightarrow> PyNone)"

text \<open>
  The kind name of a test entry, in the words of the specification (section 4.3): a bare
  string entry is its own kind name, a single-key mapping has its sole key, the test
  kind. It is written from the shape of the entry alone, apart from \<^verbatim>\<open>sort_keyfunc\<close>.
\<close>

fun kind_name :: "test_entry \<Rightarrow> scalar" where
  "kind_name (Bare name) = name"
| "kind_name (Single kind params) = kind"

fun is_OperationalError :: "exn \<Rightarrow> bool" where
  "is_OperationalError (OperationalError fmt args) = True"
| "is_OperationalError _ = False"

subsection \<open>Builder states\<close>

text \<open>The test list a builder holds for a column name; empty when there is no such column.\<close>

definition tests_of :: "scalar \<Rightarrow> builder \<Rightarrow> test_entry list" where
  "tests_of k b = (case dict_find k (columns b) of None \<Rightarrow> [] | Some c \<Rightarrow> c_tests c)"

text \<open>An entry whose sort key is a string.\<close>

definition entry_ok :: "test_entry \<Rightarrow> bool" where
  "entry_ok t = (case sort_keyfunc t of Inr k \<Rightarrow> is_str k | Inl e \<Rightarrow> False)"

text \<open>A column stored under its own name, with at least one test, all with string keys.\<close>

definition column_ok :: "scalar \<times> column \<Rightarrow> bool" where
  "column_ok p = (c_name (snd p) = fst p \<and> c_tests (snd p) \<noteq> [] \<and> list_all entry_ok (c_tests (snd p)))"

text \<open>The invariant of every builder the converter reaches: the keys of
  \<^verbatim>\<open>self.columns\<close> are pairwise unequal for Python, every column is as above, and
  \<^verbatim>\<open>self.model_tests\<close> is empty.\<close>

definition wf_builder :: "builder \<Rightarrow> bool" where
  "wf_builder b =
     (distinct (map (\<lambda>p. key_norm (fst p)) (columns b)) \<and> list_all column_ok (columns b)
      \<and> model_tests b = [])"

subsection \<open>The entries a constraints mapping declares\<close>

text \<open>
  Section 4.1 of the specification read as a function: the pairs of column name and test
  entry that the constraint kinds declare, in the order of the mapping and of each
  value list. A simple kind declares its own name for every listed column; a complex kind
  declares, for every element that has the designator key, the one-key entry whose
  parameters are the element without that key.
\<close>

definition simple_entries :: "scalar \<Rightarrow> yaml list \<Rightarrow> (yaml \<times> test_entry) list" where
  "simple_entries test_kind vs = map (\<lambda>v. (v, Bare test_kind)) vs"

fun complex_entries :: "scalar \<Rightarrow> string \<Rightarrow> yaml list \<Rightarrow> (yaml \<times> test_entry) list" where
  "complex_entries test_kind key [] = []"
| "complex_entries test_kind key (Dict kvs # rest) =
     (case dict_find (PyStr key) kvs of
        Some v \<Rightarrow> [(v, Single test_kind (filter (\<lambda>(k, v). k \<noteq> PyStr key) kvs))]
      | None \<Rightarrow> []) @ complex_entries test_kind key rest"
| "complex_entries test_kind key (_ # rest) = complex_entries test_kind key rest"

fun declared_entries :: "scalar \<times> yaml \<Rightarrow> (yaml \<times> test_entry) list" where
  "declared_entries (test_kind, Seq vs) =
     (if test_kind \<in> SIMPLE_COLUMN_TESTS then simple_entries test_kind vs
      else case dict_find test_kind COMPLEX_COLUMN_TESTS of
             Some key \<Rightarrow> complex_entries test_kind key vs
           | None \<Rightarrow> [])"
| "declared_entries (test_kind, _) = []"

fun names_column :: "scalar \<Rightarrow> yaml \<times> test_entry \<Rightarrow> bool" where
  "names_column k (Scalar k', t) = py_eq k' k"
| "names_column k (_, t) = False"

text \<open>The entries declared for one column, one per appearance of its name, in order.\<close>

definition spec_tests :: "scalar \<Rightarrow> (scalar \<times> yaml) list \<Rightarrow> test_entry list" where
  "spec_tests k constraints =
     map snd (filter (names_column k) (concat (map declared_entries constraints)))"

text \<open>A sequence of \<^verbatim>\<open>add_test\<close> calls, stopping at the first exception.\<close>

fun add_all :: "(yaml \<times> test_entry) list \<Rightarrow> builder \<Rightarrow> exn + builder" where
  "add_all [] b = Inr b"
| "add_all ((v, t) # rest) b =
     (case add_test v t b of Inl e \<Rightarrow> Inl e | Inr b' \<Rightarrow> add_all rest b')"

subsection \<open>Models of a document\<close>

text \<open>The test \<^verbatim>\<open>'constraints' not in model_data\<close> is false for this item.\<close>

definition has_constraints :: "scalar \<times> yaml \<Rightarrow> bool" where
  "has_constraints p = (py_in ''constraints'' (snd p) = Inr True)"

text \<open>The loop body of \<^verbatim>\<open>convert_schema\<close> takes the item \<open>p\<close> through the builder
  \<open>b\<close> to the model record \<open>m\<close>.\<close>

definition converts :: "scalar \<times> yaml \<Rightarrow> builder \<Rightarrow> model \<Rightarrow> bool" where
  "converts p b m =
     (case py_getitem (snd p) ''constraints'' of
        Inr constraints \<Rightarrow>
          populate_from_constraints constraints (init_builder (fst p)) = Inr b
          \<and> generate_model_dict b = Inr m
      | Inl e \<Rightarrow> False)"

subsection \<open>The sample of \<^verbatim>\<open>TestConvert\<close>\<close>

text \<open>\<^verbatim>\<open>SAMPLE_SCHEMA\<close> as \<^verbatim>\<open>yaml.safe_load\<close> returns it, and the two records of
  \<^verbatim>\<open>expected\<close> in \<^verbatim>\<open>test_convert\<close>.\<close>

definition SAMPLE_FOO :: yaml where
  "SAMPLE_FOO = Dict [(PyStr ''constraints'', Dict
     [(PyStr ''not_null'',
         Seq [Scalar (PyStr ''id''), Scalar (PyStr ''email''), Scalar (PyStr ''favorite_color'')]),
      (PyStr ''unique'', Seq [Scalar (PyStr ''id''), Scalar (PyStr ''email'')]),
      (PyStr ''accepted_values'', Seq
         [Dict [(PyStr ''field'', Scalar (PyStr ''favorite_color'')),
                (PyStr ''values'', Seq [Scalar (PyStr ''blue''), Scalar (PyStr ''green'')])],
          Dict [(PyStr ''field'', Scalar (PyStr ''likes_puppies'')),
                (PyStr ''values'', Seq [Scalar (PyStr ''yes'')])]])])]"

definition SAMPLE_BAR :: yaml where
  "SAMPLE_BAR = Dict [(PyStr ''constraints'', Dict
     [(PyStr ''not_null'', Seq [Scalar (PyStr ''id'')])])]"

definition SAMPLE_SCHEMA :: yaml where
  "SAMPLE_SCHEMA = Dict [(PyStr ''foo'', SAMPLE_FOO), (PyStr ''bar'', SAMPLE_BAR)]"

definition expected_bar :: model where
  "expected_bar =
     \<lparr>m_name = PyStr ''bar'', m_tests = None,
      m_columns = Some [\<lparr>c_name = PyStr ''id'', c_tests = [Bare (PyStr ''not_null'')]\<rparr>]\<rparr>"

definition expected_foo :: model where
  "expected_foo =
     \<lparr>m_name = PyStr ''foo'', m_tests = None,
      m_columns = Some
        [\<lparr>c_name = PyStr ''email'',
          c_tests = [Bare (PyStr ''not_null''), Bare (PyStr ''unique'')]\<rparr>,
         \<lparr>c_name = PyStr ''favorite_color'',
          c_tests = [Single (PyStr ''accepted_values'')
                       [(PyStr ''values'', Seq [Scalar (PyStr ''blue''), Scalar (PyStr ''green'')])],
                     Bare (PyStr ''not_null'')]\<rparr>,
         \<lparr>c_name = PyStr ''id'',
          c_tests = [Bare (PyStr ''not_null''), Bare (PyStr ''unique'')]\<rparr>,
         \<lparr>c_name = PyStr ''likes_puppies'',
          c_tests = [Single (PyStr ''accepted_values'')
                       [(PyStr ''values'', Seq [Scalar (PyStr ''yes'')])]]\<rparr>]\<rparr>"

section \<open>Lemmas\<close>

subsection \<open>Sorting\<close>

lemma map_exn_key_val: "map_exn key xs = Inr ks \<Longrightarrow> ks = map (key_val key) xs"
  by (induction xs arbitrary: ks) (auto simp: key_val_def split: sum.splits)

lemma insort_key_map_pair:
  "insort_key (\<lambda>p. g (fst p)) (h x, x) (map (\<lambda>x. (h x, x)) ys) =
   map (\<lambda>x. (h x, x)) (insort_key (\<lambda>x. g (h x)) x ys)"
  by (induction ys) auto

lemma sort_key_decorated:
  "map snd (sort_key (\<lambda>p. g (fst p)) (zip (map h xs) xs)) = sort_key (\<lambda>x. g (h x)) xs"
proof -
  have z: "zip (map h xs) xs = map (\<lambda>x. (h x, x)) xs"
    by (induction xs) auto
  have "sort_key (\<lambda>p. g (fst p)) (map (\<lambda>x. (h x, x)) xs) =
        map (\<lambda>x. (h x, x)) (sort_key (\<lambda>x. g (h x)) xs)"
    by (induction xs) (auto simp: insort_key_map_pair)
  then show ?thesis
    by (simp add: z comp_def)
qed

text \<open>What a successful sort returns.\<close>

lemma py_sort_Inr:
  assumes "py_sort key xs = Inr ys"
  obtains (short) "length xs < 2" "ys = xs"
    | (str) "\<not> length xs < 2" "list_all is_str (map (key_val key) xs)"
        "ys = sort_key (\<lambda>x. str_of (key_val key x)) xs"
    | (num) "\<not> length xs < 2" "\<not> list_all is_str (map (key_val key) xs)"
        "list_all is_numeric (map (key_val key) xs)"
        "ys = sort_key (\<lambda>x. num_of (key_val key x)) xs"
proof -
  from assms obtain ks where ks: "map_exn key xs = Inr ks"
    by (auto simp: py_sort_def split: sum.splits)
  then have eq: "ks = map (key_val key) xs"
    by (rule map_exn_key_val)
  have len: "length ks = length xs"
    by (simp add: eq)
  from assms have
    "py_sort key xs = Inr ys" .
  then have "(if length xs < 2 then Inr xs
          else if list_all is_str ks then
            Inr (sort_key (\<lambda>x. str_of (key_val key x)) xs)
          else if list_all is_numeric ks then
            Inr (sort_key (\<lambda>x. num_of (key_val key x)) xs)
          else Inl TypeError) = Inr ys"
    unfolding py_sort_def ks sum.case len
    by (simp only: eq sort_key_decorated)
  then show thesis
    using short str num unfolding eq
    by (simp split: if_splits)
qed

lemma py_sort_mset: "py_sort key xs = Inr ys \<Longrightarrow> mset ys = mset xs"
  by (erule py_sort_Inr) simp_all

lemma py_sort_set: "py_sort key xs = Inr ys \<Longrightarrow> set ys = set xs"
  by (erule py_sort_Inr) simp_all

lemma sort_key_stable_on:
  fixes g :: "scalar \<Rightarrow> 'b::linorder"
  shows "filter (\<lambda>x. key x = Inr k) (sort_key (\<lambda>x. g (key_val key x)) xs) =
         filter (\<lambda>x. key x = Inr k) xs"
proof -
  let ?f = "\<lambda>x. g (key_val key x)"
  have imp: "(?f x = g k \<and> key x = Inr k) = (key x = Inr k)" for x
    by (auto simp: key_val_def)
  have "filter (\<lambda>x. key x = Inr k) (sort_key ?f xs) =
        filter (\<lambda>x. key x = Inr k) (filter (\<lambda>x. ?f x = g k) (sort_key ?f xs))"
    by (simp only: filter_filter imp)
  also have "\<dots> = filter (\<lambda>x. key x = Inr k) (filter (\<lambda>x. ?f x = g k) xs)"
    by (simp only: sort_key_stable)
  also have "\<dots> = filter (\<lambda>x. key x = Inr k) xs"
    by (simp only: filter_filter imp)
  finally show ?thesis .
qed

lemma py_sort_stable:
  assumes "py_sort key xs = Inr ys"
  shows "filter (\<lambda>x. key x = Inr k) ys = filter (\<lambda>x. key x = Inr k) xs"
  using assms by (rule py_sort_Inr) (simp_all only: sort_key_stable_on)

lemma py_sort_sorted_str:
  assumes "py_sort key xs = Inr ys" and "list_all is_str (map (key_val key) xs)"
  shows "sorted (map (\<lambda>x. str_of (key_val key x)) ys)"
  using assms(1)
proof (rule py_sort_Inr)
  assume "length xs < 2" "ys = xs"
  then have "length (map (\<lambda>x. str_of (key_val key x)) ys) \<le> 1" by simp
  then show ?thesis by (rule sorted_wrt01)
next
  assume "ys = sort_key (\<lambda>x. str_of (key_val key x)) xs"
  then show ?thesis by (simp only: sorted_sort_key)
next
  assume "\<not> list_all is_str (map (key_val key) xs)"
  with assms(2) show ?thesis by simp
qed

lemma py_lt_str: "is_str a \<Longrightarrow> is_str b \<Longrightarrow> py_lt a b = Inr (str_of a < str_of b)"
  by (cases a; cases b) auto

lemma py_lt_num: "is_numeric a \<Longrightarrow> is_numeric b \<Longrightarrow> py_lt a b = Inr (num_of a < num_of b)"
  by (cases a; cases b) auto

lemma key_norm_str: "is_str a \<Longrightarrow> is_str b \<Longrightarrow> str_of a = str_of b \<Longrightarrow> key_norm a = key_norm b"
  by (cases a; cases b) auto

lemma key_norm_num: "is_numeric a \<Longrightarrow> is_numeric b \<Longrightarrow> num_of a = num_of b \<Longrightarrow> key_norm a = key_norm b"
  by (cases a; cases b) (auto split: if_splits)

lemma strict_by_projection:
  fixes g :: "scalar \<Rightarrow> 'b::linorder"
  assumes d: "distinct (map (\<lambda>x. key_norm (f x)) xs)"
    and inj: "\<And>a b. a \<in> set xs \<Longrightarrow> b \<in> set xs \<Longrightarrow> g (f a) = g (f b) \<Longrightarrow> key_norm (f a) = key_norm (f b)"
    and lt: "\<And>a b. a \<in> set xs \<Longrightarrow> b \<in> set xs \<Longrightarrow> py_lt (f a) (f b) = Inr (g (f a) < g (f b))"
  shows "sorted_wrt (\<lambda>a b. py_lt a b = Inr True) (map f (sort_key (\<lambda>x. g (f x)) xs))"
proof -
  let ?ys = "sort_key (\<lambda>x. g (f x)) xs"
  have m: "mset ?ys = mset xs" by simp
  have "distinct (map (\<lambda>x. key_norm (f x)) ?ys)"
    using d mset_eq_imp_distinct_iff [of "map (\<lambda>x. key_norm (f x)) ?ys" "map (\<lambda>x. key_norm (f x)) xs"]
    by simp
  then have dy: "distinct ?ys" and injn: "inj_on (\<lambda>x. key_norm (f x)) (set ?ys)"
    by (auto simp: distinct_map)
  have "inj_on (\<lambda>x. g (f x)) (set ?ys)"
  proof (rule inj_onI)
    fix a b assume a: "a \<in> set ?ys" and b: "b \<in> set ?ys" and ab: "g (f a) = g (f b)"
    from a b have "a \<in> set xs" "b \<in> set xs" by simp_all
    then have kn: "key_norm (f a) = key_norm (f b)" using ab by (rule inj)
    from injn kn a b show "a = b" by (rule inj_onD)
  qed
  with dy have "distinct (map (\<lambda>x. g (f x)) ?ys)"
    by (simp add: distinct_map)
  moreover have "sorted (map (\<lambda>x. g (f x)) ?ys)"
    by (rule sorted_sort_key)
  ultimately have "sorted_wrt (<) (map (\<lambda>x. g (f x)) ?ys)"
    by (simp add: strict_sorted_iff)
  then have "sorted_wrt (\<lambda>a b. g (f a) < g (f b)) ?ys"
    by (simp add: sorted_wrt_map)
  then have "sorted_wrt (\<lambda>a b. py_lt (f a) (f b) = Inr True) ?ys"
    by (rule sorted_wrt_mono_rel [rotated]) (simp add: lt)
  then show ?thesis
    by (simp add: sorted_wrt_map)
qed

lemma py_sort_strict:
  assumes s: "py_sort (\<lambda>x. Inr (f x)) xs = Inr ys"
    and d: "distinct (map (\<lambda>x. key_norm (f x)) xs)"
  shows "sorted_wrt (\<lambda>a b. py_lt a b = Inr True) (map f ys)"
proof -
  have kv: "key_val (\<lambda>x. Inr (f x)) = f"
    by (auto simp: key_val_def)
  from s show ?thesis
  proof (rule py_sort_Inr)
    assume "length xs < 2" "ys = xs"
    then have "length (map f ys) \<le> 1" by simp
    then show ?thesis by (rule sorted_wrt01)
  next
    assume a: "list_all is_str (map (key_val (\<lambda>x. Inr (f x))) xs)"
      and ys: "ys = sort_key (\<lambda>x. str_of (key_val (\<lambda>x. Inr (f x)) x)) xs"
    from a have str: "\<And>a. a \<in> set xs \<Longrightarrow> is_str (f a)"
      by (simp add: kv list_all_iff)
    show ?thesis unfolding ys kv
      by (rule strict_by_projection [OF d]) (simp_all add: str key_norm_str py_lt_str)
  next
    assume a: "list_all is_numeric (map (key_val (\<lambda>x. Inr (f x))) xs)"
      and ys: "ys = sort_key (\<lambda>x. num_of (key_val (\<lambda>x. Inr (f x)) x)) xs"
    from a have num: "\<And>a. a \<in> set xs \<Longrightarrow> is_numeric (f a)"
      by (simp add: kv list_all_iff)
    show ?thesis unfolding ys kv
      by (rule strict_by_projection [OF d]) (simp_all add: num key_norm_num py_lt_num)
  qed
qed



lemma list_all2_right: "list_all2 P xs ys \<Longrightarrow> y \<in> set ys \<Longrightarrow> \<exists>x \<in> set xs. P x y"
  by (induction rule: list_all2_induct) auto

lemma list_all2_left: "list_all2 P xs ys \<Longrightarrow> x \<in> set xs \<Longrightarrow> \<exists>y \<in> set ys. P x y"
  by (induction rule: list_all2_induct) auto

lemma list_all2_map_eq: "list_all2 (\<lambda>x y. f y = g x) xs ys \<Longrightarrow> map f ys = map g xs"
  by (induction rule: list_all2_induct) auto

lemma not_Inr_Inl: "(\<And>y. x \<noteq> Inr y) \<Longrightarrow> \<exists>e. x = Inl e"
  by (cases x) auto

subsection \<open>Dictionaries\<close>

lemma py_eq_refl [simp]: "py_eq k k"
  by (simp add: py_eq_def)

lemma py_eq_PyStr [simp]: "py_eq k (PyStr s) = (k = PyStr s)" "py_eq (PyStr s) k = (k = PyStr s)"
  by (cases k; auto simp: py_eq_def)+

lemma dict_find_None: "dict_find k kvs = None \<longleftrightarrow> key_norm k \<notin> set (map (\<lambda>p. key_norm (fst p)) kvs)"
proof (induction kvs)
  case Nil
  show ?case by simp
next
  case (Cons p kvs)
  obtain k' v where p: "p = (k', v)" by (cases p)
  show ?case
  proof (cases "key_norm k' = key_norm k")
    case True
    then show ?thesis by (simp add: p py_eq_def)
  next
    case False
    then have "key_norm k \<noteq> key_norm k'" by (rule not_sym)
    with False Cons show ?thesis by (simp add: p py_eq_def)
  qed
qed

lemma dict_find_Some: "dict_find k kvs = Some v \<Longrightarrow> \<exists>k'. (k', v) \<in> set kvs \<and> py_eq k' k"
  by (induction kvs) (auto split: if_splits)

lemma dict_find_cong: "py_eq k1 k2 \<Longrightarrow> dict_find k1 kvs = dict_find k2 kvs"
  by (induction kvs) (auto simp: py_eq_def)

lemma dict_find_append:
  "dict_find k (xs @ ys) = (case dict_find k xs of Some v \<Rightarrow> Some v | None \<Rightarrow> dict_find k ys)"
  by (induction xs) auto

lemma dict_find_distinct:
  "distinct (map (\<lambda>p. key_norm (fst p)) kvs) \<Longrightarrow> (k, v) \<in> set kvs \<Longrightarrow> dict_find k kvs = Some v"
  by (induction kvs) (auto simp: py_eq_def rev_image_eqI)


lemma append_test_cong: "py_eq k1 k2 \<Longrightarrow> append_test k1 t cols = append_test k2 t cols"
  by (induction cols) (auto simp: py_eq_def)

lemma append_test_keys [simp]: "map fst (append_test k t cols) = map fst cols"
  by (induction cols) auto

lemma append_test_norm_keys [simp]:
  "map (\<lambda>p. key_norm (fst p)) (append_test k t cols) = map (\<lambda>p. key_norm (fst p)) cols"
  by (induction cols) auto

lemma append_test_new:
  "dict_find k cols = None \<Longrightarrow> append_test k t (cols @ [(k, c)]) = cols @ [(k, c\<lparr>c_tests := c_tests c @ [t]\<rparr>)]"
  by (induction cols) (auto split: if_splits)

lemma dict_find_append_test:
  "dict_find k' (append_test k t cols) =
     (if py_eq k k' then map_option (\<lambda>c. c\<lparr>c_tests := c_tests c @ [t]\<rparr>) (dict_find k' cols)
      else dict_find k' cols)"
  by (induction cols) (auto simp: py_eq_def)

lemma append_test_ok:
  "list_all column_ok cols \<Longrightarrow> entry_ok t \<Longrightarrow> list_all column_ok (append_test k t cols)"
  by (induction cols) (auto simp: column_ok_def)

subsection \<open>One call of \<^verbatim>\<open>add_test\<close>\<close>



lemma add_test_Inr: "add_test cn t b = Inr b' \<Longrightarrow> \<exists>k. cn = Scalar k"
  by (cases cn) (auto simp: add_test_def get_column_def)

lemma add_test_unhashable [simp]:
  "add_test (Seq xs) t b = Inl TypeError" "add_test (Dict kvs) t b = Inl TypeError"
  by (simp_all add: add_test_def get_column_def)

lemma add_test_Scalar:
  assumes "list_all column_ok (columns b)"
  shows "add_test (Scalar k) t b =
         Inr (b\<lparr>columns := (case dict_find k (columns b) of
                               None \<Rightarrow> columns b @ [(k, \<lparr>c_name = k, c_tests = [t]\<rparr>)]
                             | Some c \<Rightarrow> append_test k t (columns b))\<rparr>)"
proof (cases "dict_find k (columns b)")
  case None
  then show ?thesis
    by (simp add: add_test_def get_column_def Let_def append_test_new)
next
  case (Some c)
  then obtain k' where "(k', c) \<in> set (columns b)" "py_eq k' k"
    by (auto dest: dict_find_Some)
  with assms have "py_eq (c_name c) k"
    by (auto simp: list_all_iff column_ok_def)
  then have "append_test (c_name c) t (columns b) = append_test k t (columns b)"
    by (rule append_test_cong)
  with Some show ?thesis
    by (simp add: add_test_def get_column_def)
qed

lemma add_test_wf:
  assumes wf: "wf_builder b" and ok: "entry_ok t" and add: "add_test (Scalar k) t b = Inr b'"
  shows "wf_builder b'"
proof -
  from wf have cok: "list_all column_ok (columns b)"
    by (simp add: wf_builder_def)
  note eq = add [unfolded add_test_Scalar [OF cok]]
  show ?thesis
  proof (cases "dict_find k (columns b)")
    case None
    with eq have b': "b' = b\<lparr>columns := columns b @ [(k, \<lparr>c_name = k, c_tests = [t]\<rparr>)]\<rparr>"
      by simp
    from None have "key_norm k \<notin> set (map (\<lambda>p. key_norm (fst p)) (columns b))"
      by (rule iffD1 [OF dict_find_None])
    with wf ok show ?thesis
      by (simp add: b' wf_builder_def column_ok_def)
  next
    case (Some c)
    with eq have b': "b' = b\<lparr>columns := append_test k t (columns b)\<rparr>"
      by simp
    from wf ok show ?thesis
      by (simp add: b' wf_builder_def append_test_ok)
  qed
qed

lemma add_test_tests_of:
  assumes cok: "list_all column_ok (columns b)" and add: "add_test (Scalar k) t b = Inr b'"
  shows "tests_of k' b' = (if py_eq k k' then tests_of k' b @ [t] else tests_of k' b)"
proof -
  note eq = add [unfolded add_test_Scalar [OF cok]]
  show ?thesis
  proof (cases "dict_find k (columns b)")
    case None
    with eq have b': "b' = b\<lparr>columns := columns b @ [(k, \<lparr>c_name = k, c_tests = [t]\<rparr>)]\<rparr>"
      by simp
    from None have "py_eq k k' \<Longrightarrow> dict_find k' (columns b) = None"
      by (simp add: dict_find_cong [of k k'])
    then show ?thesis
      by (auto simp: b' tests_of_def dict_find_append split: option.splits)
  next
    case (Some c)
    with eq have b': "b' = b\<lparr>columns := append_test k t (columns b)\<rparr>"
      by simp
    from Some have "py_eq k k' \<Longrightarrow> dict_find k' (columns b) = Some c"
      by (simp add: dict_find_cong [of k k'])
    then show ?thesis
      by (auto simp: b' tests_of_def dict_find_append_test split: option.splits)
  qed
qed

lemma add_test_fields:
  "add_test cn t b = Inr b' \<Longrightarrow> model_name b' = model_name b \<and> model_tests b' = model_tests b"
  by (cases cn) (auto simp: add_test_def get_column_def Let_def split: option.splits)

subsection \<open>A sequence of calls\<close>

lemma add_all_append:
  "add_all (xs @ ys) b = (case add_all xs b of Inl e \<Rightarrow> Inl e | Inr b' \<Rightarrow> add_all ys b')"
  by (induction xs arbitrary: b) (auto split: sum.splits)

lemma add_all_effect:
  assumes "add_all es b = Inr b'" and "wf_builder b" and "list_all (\<lambda>p. entry_ok (snd p)) es"
  shows "wf_builder b' \<and> model_name b' = model_name b
       \<and> (\<forall>k. tests_of k b' = tests_of k b @ map snd (filter (names_column k) es))"
  using assms
proof (induction es arbitrary: b)
  case Nil
  then show ?case by simp
next
  case (Cons e es)
  obtain v t where e: "e = (v, t)" by (cases e)
  from Cons.prems(1) obtain b1 where b1: "add_test v t b = Inr b1" and rest: "add_all es b1 = Inr b'"
    by (auto simp: e split: sum.splits)
  from b1 obtain k where v: "v = Scalar k"
    by (auto dest: add_test_Inr)
  from Cons.prems have ok: "entry_ok t" and oks: "list_all (\<lambda>p. entry_ok (snd p)) es"
    by (simp_all add: e)
  from Cons.prems(2) have cok: "list_all column_ok (columns b)"
    by (simp add: wf_builder_def)
  have wf1: "wf_builder b1"
    using Cons.prems(2) ok b1 [unfolded v] by (rule add_test_wf)
  have t1: "tests_of k' b1 = (if py_eq k k' then tests_of k' b @ [t] else tests_of k' b)" for k'
    using cok b1 [unfolded v] by (rule add_test_tests_of)
  have n1: "model_name b1 = model_name b"
    using b1 by (simp add: add_test_fields)
  from Cons.IH [OF rest wf1 oks] show ?case
    by (simp add: e v t1 n1)
qed

lemma handle_simple_column_add_all:
  "handle_simple_column vs test_name b = add_all (simple_entries test_name vs) b"
  by (induction vs arbitrary: b) (auto simp: simple_entries_def split: sum.splits)

lemma complex_loop_add_all:
  "complex_loop key vs test_name b = Inr b' \<Longrightarrow> add_all (complex_entries test_name key vs) b = Inr b'"
proof (induction vs arbitrary: b)
  case Nil
  then show ?case by simp
next
  case (Cons d vs)
  show ?case
  proof (cases d)
    case (Dict kvs)
    with Cons show ?thesis
      by (auto split: sum.splits bool.splits option.splits if_splits)
  next
    case (Scalar s)
    with Cons.prems show ?thesis
      by (cases s) (auto split: sum.splits bool.splits if_splits)
  next
    case (Seq xs)
    with Cons.prems show ?thesis
      by (auto split: sum.splits bool.splits if_splits)
  qed
qed

lemma complex_loop_mem:
  "complex_loop key vs tn b = Inr b' \<Longrightarrow> d \<in> set vs \<Longrightarrow> py_in key d = Inr True"
  by (induction vs arbitrary: b) (auto split: sum.splits bool.splits)

lemma complex_loop_append:
  "complex_loop key (xs @ ys) tn b =
     (case complex_loop key xs tn b of Inl e \<Rightarrow> Inl e | Inr b1 \<Rightarrow> complex_loop key ys tn b1)"
  by (induction xs arbitrary: b) (auto split: sum.splits bool.splits)

lemma complex_loop_name:
  "complex_loop key vs tn b = Inr b' \<Longrightarrow> model_name b' = model_name b"
  by (induction vs arbitrary: b) (auto split: sum.splits bool.splits dest: add_test_fields)

subsection \<open>Populating a builder\<close>

lemma SIMPLE_str: "k \<in> SIMPLE_COLUMN_TESTS \<Longrightarrow> is_str k"
  by (auto simp: SIMPLE_COLUMN_TESTS_def)

lemma COMPLEX_str: "dict_find k COMPLEX_COLUMN_TESTS = Some key \<Longrightarrow> is_str k"
  by (auto simp: COMPLEX_COLUMN_TESTS_def split: if_splits)

lemma COMPLEX_not_SIMPLE:
  "dict_find k COMPLEX_COLUMN_TESTS = Some key \<Longrightarrow> k \<notin> SIMPLE_COLUMN_TESTS"
  by (auto simp: COMPLEX_COLUMN_TESTS_def SIMPLE_COLUMN_TESTS_def split: if_splits)

lemma entry_ok_Bare: "is_str k \<Longrightarrow> entry_ok (Bare k)"
  by (cases k) (auto simp: entry_ok_def)

lemma entry_ok_Single: "is_str k \<Longrightarrow> entry_ok (Single k v)"
  by (auto simp: entry_ok_def)

lemma complex_entries_ok:
  "is_str k \<Longrightarrow> list_all (\<lambda>p. entry_ok (snd p)) (complex_entries k key vs)"
  by (induction k key vs rule: complex_entries.induct)
     (auto simp: entry_ok_Single split: option.splits)

lemma declared_entries_ok: "list_all (\<lambda>p. entry_ok (snd p)) (declared_entries c)"
proof (cases c)
  case (Pair k v)
  show ?thesis
  proof (cases v)
    case (Seq vs)
    show ?thesis
    proof (cases "k \<in> SIMPLE_COLUMN_TESTS")
      case True
      then have "entry_ok (Bare k)"
        by (intro entry_ok_Bare SIMPLE_str)
      with True show ?thesis
        by (simp add: Pair Seq simple_entries_def list_all_iff)
    next
      case False
      show ?thesis
      proof (cases "dict_find k COMPLEX_COLUMN_TESTS")
        case None
        with False show ?thesis by (simp add: Pair Seq)
      next
        case (Some key)
        then have "is_str k" by (rule COMPLEX_str)
        then have "list_all (\<lambda>p. entry_ok (snd p)) (complex_entries k key vs)"
          by (rule complex_entries_ok)
        with False Some show ?thesis by (simp add: Pair Seq)
      qed
    qed
  qed (simp_all add: Pair)
qed

lemma populate_test_add_all:
  assumes "populate_test test_name test_values b = Inr b'"
  shows "add_all (declared_entries (test_name, test_values)) b = Inr b'"
proof (cases test_values)
  case (Seq vs)
  with assms show ?thesis
    by (auto simp: populate_test_def handle_simple_column_add_all handle_complex_column_def
          split: if_splits option.splits intro: complex_loop_add_all)
qed (use assms in \<open>simp_all add: populate_test_def\<close>)

lemma populate_loop_add_all:
  "populate_loop cs b = Inr b' \<Longrightarrow> add_all (concat (map declared_entries cs)) b = Inr b'"
proof (induction cs arbitrary: b)
  case Nil
  then show ?case by simp
next
  case (Cons c cs)
  obtain k v where c: "c = (k, v)" by (cases c)
  from Cons.prems obtain b1 where b1: "populate_test k v b = Inr b1"
    and rest: "populate_loop cs b1 = Inr b'"
    by (auto simp: c split: sum.splits)
  from b1 have "add_all (declared_entries (k, v)) b = Inr b1"
    by (rule populate_test_add_all)
  moreover from rest have "add_all (concat (map declared_entries cs)) b1 = Inr b'"
    by (rule Cons.IH)
  ultimately show ?case
    by (simp add: c add_all_append)
qed

lemma populate_loop_mem:
  "populate_loop cs b = Inr b' \<Longrightarrow> (k, v) \<in> set cs \<Longrightarrow> \<exists>b1 b2. populate_test k v b1 = Inr b2"
proof (induction cs arbitrary: b)
  case Nil
  then show ?case by simp
next
  case (Cons c cs)
  obtain k' v' where c: "c = (k', v')" by (cases c)
  from Cons.prems(1) obtain b1 where b1: "populate_test k' v' b = Inr b1"
    and rest: "populate_loop cs b1 = Inr b'"
    by (auto simp: c split: sum.splits)
  from Cons.prems(2) consider "k = k'" "v = v'" | "(k, v) \<in> set cs"
    by (auto simp: c)
  then show ?case
  proof cases
    case 1
    with b1 show ?thesis by blast
  next
    case 2
    with rest show ?thesis by (rule Cons.IH)
  qed
qed

lemma wf_init_builder: "wf_builder (init_builder name)"
  by (simp add: wf_builder_def init_builder_def)

lemma name_init_builder: "model_name (init_builder name) = name"
  by (simp add: init_builder_def)

lemma tests_of_init_builder: "tests_of k (init_builder name) = []"
  by (simp add: tests_of_def init_builder_def)

lemma populate_from_constraints_Inr:
  "populate_from_constraints constraints b = Inr b' \<Longrightarrow>
   \<exists>cs. constraints = Dict cs \<and> populate_loop cs b = Inr b'"
  by (cases constraints) (auto simp: populate_from_constraints_def)

lemma populate_effect:
  assumes "populate_from_constraints (Dict cs) (init_builder name) = Inr b"
  shows "wf_builder b \<and> model_name b = name \<and> (\<forall>k. tests_of k b = spec_tests k cs)"
proof -
  from assms have "populate_loop cs (init_builder name) = Inr b"
    by (simp add: populate_from_constraints_def)
  then have "add_all (concat (map declared_entries cs)) (init_builder name) = Inr b"
    by (rule populate_loop_add_all)
  moreover have "list_all (\<lambda>p. entry_ok (snd p)) (concat (map declared_entries cs))"
    using declared_entries_ok by (auto simp: list_all_iff)
  ultimately show ?thesis
    using add_all_effect [of "concat (map declared_entries cs)" "init_builder name" b]
    by (simp add: wf_init_builder tests_of_init_builder spec_tests_def name_init_builder)
qed

lemma wf_names_distinct:
  assumes "wf_builder b"
  shows "distinct (map (\<lambda>c. key_norm (c_name c)) (map snd (columns b)))"
proof -
  from assms have "\<And>p. p \<in> set (columns b) \<Longrightarrow> c_name (snd p) = fst p"
    by (auto simp: wf_builder_def list_all_iff column_ok_def)
  then have "map (\<lambda>c. key_norm (c_name c)) (map snd (columns b)) = map (\<lambda>p. key_norm (fst p)) (columns b)"
    by simp
  moreover from assms have "distinct (map (\<lambda>p. key_norm (fst p)) (columns b))"
    by (simp add: wf_builder_def)
  ultimately show ?thesis
    by (simp only:)
qed

lemma wf_tests_of:
  assumes "wf_builder b" and "(k, c) \<in> set (columns b)"
  shows "tests_of (c_name c) b = c_tests c \<and> c_tests c \<noteq> [] \<and> list_all entry_ok (c_tests c)"
proof -
  from assms have ok: "column_ok (k, c)"
    by (auto simp: wf_builder_def list_all_iff)
  from assms have "dict_find k (columns b) = Some c"
    by (auto simp: wf_builder_def intro: dict_find_distinct)
  with ok show ?thesis
    by (simp add: tests_of_def column_ok_def)
qed


lemma entry_ok_keys:
  "list_all entry_ok ts \<Longrightarrow>
   map_exn sort_keyfunc ts = Inr (map (key_val sort_keyfunc) ts)
   \<and> list_all is_str (map (key_val sort_keyfunc) ts)"
  by (induction ts) (auto simp: entry_ok_def key_val_def split: sum.splits)

lemma entry_ok_kind_name:
  "entry_ok t \<Longrightarrow> sort_keyfunc t = Inr (kind_name t) \<and> is_str (kind_name t)"
  by (cases t rule: sort_keyfunc.cases) (simp_all add: entry_ok_def)

lemma entry_ok_kind_names:
  assumes "list_all entry_ok ts"
  shows "map (key_val sort_keyfunc) ts = map kind_name ts"
proof (rule map_cong [OF refl])
  fix t
  assume "t \<in> set ts"
  with assms have "entry_ok t"
    by (simp add: list_all_iff)
  then have "sort_keyfunc t = Inr (kind_name t)"
    by (simp add: entry_ok_kind_name)
  then show "key_val sort_keyfunc t = kind_name t"
    by (simp add: key_val_def)
qed

lemma entry_ok_filter:
  assumes "list_all entry_ok ts"
  shows "filter (\<lambda>t. kind_name t = k) ts = filter (\<lambda>t. sort_keyfunc t = Inr k) ts"
proof (rule filter_cong [OF refl])
  fix t
  assume "t \<in> set ts"
  with assms have "entry_ok t"
    by (simp add: list_all_iff)
  then have "sort_keyfunc t = Inr (kind_name t)"
    by (simp add: entry_ok_kind_name)
  then show "(kind_name t = k) = (sort_keyfunc t = Inr k)"
    by auto
qed

subsection \<open>Generating a model record\<close>

lemma sort_tests_loop_Inr:
  "sort_tests_loop cs acc = Inr out \<Longrightarrow>
   \<exists>new. out = acc @ new \<and>
     list_all2 (\<lambda>c c'. c_name c' = c_name c \<and> py_sort sort_keyfunc (c_tests c) = Inr (c_tests c')) cs new"
proof (induction cs arbitrary: acc)
  case Nil
  then show ?case by simp
next
  case (Cons c cs)
  from Cons.prems obtain ts where ts: "py_sort sort_keyfunc (c_tests c) = Inr ts"
    and rest: "sort_tests_loop cs (acc @ [c\<lparr>c_tests := ts\<rparr>]) = Inr out"
    by (auto split: sum.splits)
  from Cons.IH [OF rest] obtain new where
    "out = (acc @ [c\<lparr>c_tests := ts\<rparr>]) @ new"
    "list_all2 (\<lambda>c c'. c_name c' = c_name c \<and> py_sort sort_keyfunc (c_tests c) = Inr (c_tests c')) cs new"
    by blast
  with ts show ?case
    by (intro exI [of _ "c\<lparr>c_tests := ts\<rparr> # new"]) simp
qed

lemma sorted_column_list_Inr:
  assumes "sorted_column_list column_dict = Inr cols"
  obtains cs where "py_sort (\<lambda>c. Inr (c_name c)) (map snd column_dict) = Inr cs"
    and "list_all2 (\<lambda>c c'. c_name c' = c_name c \<and> py_sort sort_keyfunc (c_tests c) = Inr (c_tests c')) cs cols"
proof -
  from assms obtain cs where cs: "py_sort (\<lambda>c. Inr (c_name c)) (map snd column_dict) = Inr cs"
    and loop: "sort_tests_loop cs [] = Inr cols"
    by (auto simp: sorted_column_list_def split: sum.splits)
  from sort_tests_loop_Inr [OF loop] cs that show thesis
    by auto
qed

lemma generate_columns:
  assumes "generate_model_dict b = Inr m" and "m_columns m = Some cols"
  shows "sorted_column_list (columns b) = Inr cols"
  using assms by (auto simp: generate_model_dict_def Let_def split: if_splits sum.splits)

lemma generate_name: "generate_model_dict b = Inr m \<Longrightarrow> m_name m = model_name b"
  by (auto simp: generate_model_dict_def Let_def split: if_splits sum.splits)

text \<open>The columns of a generated model, traced back to the builder's columns.\<close>

lemma generated_columns:
  assumes wf: "wf_builder b" and gen: "generate_model_dict b = Inr m" and cols: "m_columns m = Some cols"
  obtains cs where "py_sort (\<lambda>c. Inr (c_name c)) (map snd (columns b)) = Inr cs"
    "map c_name cols = map c_name cs"
    "\<And>c. c \<in> set cols \<Longrightarrow> \<exists>k c0. (k, c0) \<in> set (columns b) \<and> c_name c = c_name c0
           \<and> py_sort sort_keyfunc (c_tests c0) = Inr (c_tests c)"
proof -
  from gen cols have "sorted_column_list (columns b) = Inr cols"
    by (rule generate_columns)
  then obtain cs where s: "py_sort (\<lambda>c. Inr (c_name c)) (map snd (columns b)) = Inr cs"
    and l: "list_all2 (\<lambda>c c'. c_name c' = c_name c \<and> py_sort sort_keyfunc (c_tests c) = Inr (c_tests c')) cs cols"
    by (rule sorted_column_list_Inr)
  from l have "list_all2 (\<lambda>c c'. c_name c' = c_name c) cs cols"
    by (rule list_all2_mono) simp
  then have names: "map c_name cols = map c_name cs"
    by (rule list_all2_map_eq)
  have origin: "\<exists>k c0. (k, c0) \<in> set (columns b) \<and> c_name c = c_name c0
           \<and> py_sort sort_keyfunc (c_tests c0) = Inr (c_tests c)" if "c \<in> set cols" for c
  proof -
    from l that obtain c0 where c0: "c0 \<in> set cs" "c_name c = c_name c0"
      "py_sort sort_keyfunc (c_tests c0) = Inr (c_tests c)"
      by (auto dest: list_all2_right)
    from s have "set cs = set (map snd (columns b))"
      by (rule py_sort_set)
    with c0(1) obtain k where "(k, c0) \<in> set (columns b)"
      by auto
    with c0 show ?thesis by blast
  qed
  from s names origin that show thesis
    by blast
qed

lemma generated_column_origin:
  assumes wf: "wf_builder b" and gen: "generate_model_dict b = Inr m"
    and cols: "m_columns m = Some cols" and mem: "c \<in> set cols"
  shows "\<exists>k c0. (k, c0) \<in> set (columns b) \<and> c_name c = c_name c0
           \<and> py_sort sort_keyfunc (c_tests c0) = Inr (c_tests c)"
  using wf gen cols
proof (rule generated_columns)
  fix cs
  assume "\<And>c. c \<in> set cols \<Longrightarrow> \<exists>k c0. (k, c0) \<in> set (columns b) \<and> c_name c = c_name c0
           \<and> py_sort sort_keyfunc (c_tests c0) = Inr (c_tests c)"
  from this [OF mem] show ?thesis .
qed

subsection \<open>Converting a document\<close>

lemma convert_loop_acc:
  "convert_loop items acc =
     (case convert_loop items [] of Inl e \<Rightarrow> Inl e | Inr ms \<Rightarrow> Inr (acc @ ms))"
proof (induction items arbitrary: acc)
  case Nil
  show ?case by simp
next
  case (Cons p items)
  obtain name md where p: "p = (name, md)" by (cases p)
  have step: "convert_loop items (acc @ [m]) =
      (case convert_loop items [m] of Inl e \<Rightarrow> Inl e | Inr ms \<Rightarrow> Inr (acc @ ms))" for m
    by (subst Cons.IH [of "acc @ [m]"], subst Cons.IH [of "[m]"]) (simp split: sum.splits)
  show ?case
    unfolding p convert_loop.simps
    by (simp add: step Cons.IH [of acc] split: sum.splits bool.splits)
qed

lemma convert_loop_append:
  "convert_loop (xs @ ys) acc =
     (case convert_loop xs acc of Inl e \<Rightarrow> Inl e | Inr acc' \<Rightarrow> convert_loop ys acc')"
  by (induction xs arbitrary: acc) (auto split: sum.splits bool.splits)

lemma convert_loop_models:
  "convert_loop items acc = Inr ms \<Longrightarrow>
   \<exists>new. ms = acc @ new \<and> list_all2 (\<lambda>p m. \<exists>b. converts p b m) (filter has_constraints items) new"
proof (induction items arbitrary: acc)
  case Nil
  then show ?case by simp
next
  case (Cons p items)
  obtain name md where p: "p = (name, md)" by (cases p)
  from Cons.prems obtain has where has: "py_in ''constraints'' md = Inr has"
    by (auto simp: p split: sum.splits)
  show ?case
  proof (cases has)
    case False
    with has Cons.prems have "convert_loop items acc = Inr ms"
      by (simp add: p)
    from Cons.IH [OF this] has False show ?thesis
      by (simp add: p has_constraints_def)
  next
    case True
    with has Cons.prems obtain cs b m where
      cs: "py_getitem md ''constraints'' = Inr cs" and
      b: "populate_from_constraints cs (init_builder name) = Inr b" and
      m: "generate_model_dict b = Inr m" and
      rest: "convert_loop items (acc @ [m]) = Inr ms"
      by (auto simp: p split: sum.splits)
    from Cons.IH [OF rest] obtain new where
      "ms = (acc @ [m]) @ new" "list_all2 (\<lambda>p m. \<exists>b. converts p b m) (filter has_constraints items) new"
      by blast
    moreover have "converts p b m"
      by (simp add: converts_def p cs b m)
    moreover from has True have "has_constraints p"
      by (simp add: p has_constraints_def)
    ultimately show ?thesis
      by (intro exI [of _ "m # new"]) auto
  qed
qed

lemma convert_schema_Inr:
  assumes "convert_schema initial = Inr doc"
  obtains items where "initial = Dict items" "version doc = 2"
    "list_all2 (\<lambda>p m. \<exists>b. converts p b m) (filter has_constraints items) (models doc)"
proof -
  from assms obtain items ms where i: "initial = Dict items"
    and l: "convert_loop items [] = Inr ms" and d: "doc = \<lparr>version = 2, models = ms\<rparr>"
    by (cases initial) (auto simp: convert_schema_def split: sum.splits)
  from convert_loop_models [OF l] i d that show thesis
    by auto
qed

lemma converts_Inr:
  assumes "converts p b m"
  obtains kvs cs where "snd p = Dict kvs" "dict_find (PyStr ''constraints'') kvs = Some (Dict cs)"
    "populate_from_constraints (Dict cs) (init_builder (fst p)) = Inr b"
    "generate_model_dict b = Inr m"
proof -
  from assms obtain c where c: "py_getitem (snd p) ''constraints'' = Inr c"
    and pop: "populate_from_constraints c (init_builder (fst p)) = Inr b"
    and gen: "generate_model_dict b = Inr m"
    by (auto simp: converts_def split: sum.splits)
  from pop obtain cs where cs: "c = Dict cs"
    by (auto dest: populate_from_constraints_Inr)
  from c obtain kvs where "snd p = Dict kvs" "dict_find (PyStr ''constraints'') kvs = Some c"
    by (cases "snd p") (auto split: option.splits)
  with cs pop gen that show thesis
    by auto
qed

lemma converts_name: "converts p b m \<Longrightarrow> m_name m = fst p"
proof (erule converts_Inr)
  fix kvs cs
  assume "populate_from_constraints (Dict cs) (init_builder (fst p)) = Inr b"
    and "generate_model_dict b = Inr m"
  then have "model_name b = fst p" "m_name m = model_name b"
    by (simp_all add: populate_effect generate_name)
  then show ?thesis by simp
qed

lemma converts_names: "list_all2 (\<lambda>p m. \<exists>b. converts p b m) ps ms \<Longrightarrow> map m_name ms = map fst ps"
  by (induction rule: list_all2_induct) (auto dest: converts_name)

lemma convert_success_populates:
  assumes ok: "convert_schema (Dict items) = Inr doc"
    and mem: "(name, model_data) \<in> set items"
    and cs: "py_getitem model_data ''constraints'' = Inr constraints"
  shows "\<exists>b. populate_from_constraints constraints (init_builder name) = Inr b"
proof -
  from ok obtain items' where "Dict items = Dict items'"
    and all: "list_all2 (\<lambda>p m. \<exists>b. converts p b m) (filter has_constraints items') (models doc)"
    by (rule convert_schema_Inr)
  then have all': "list_all2 (\<lambda>p m. \<exists>b. converts p b m) (filter has_constraints items) (models doc)"
    by simp
  from cs have "has_constraints (name, model_data)"
    by (cases model_data) (auto simp: has_constraints_def split: option.splits)
  with mem have "(name, model_data) \<in> set (filter has_constraints items)"
    by simp
  with all' obtain m b where "converts (name, model_data) b m"
    by (blast dest: list_all2_left)
  with cs show ?thesis
    by (auto simp: converts_def)
qed

text \<open>The model records of a successful conversion, traced back to the builder.\<close>

lemma convert_model_origin:
  assumes "convert_schema initial = Inr doc" and "m \<in> set (models doc)"
  obtains items name model_data cs b where
    "initial = Dict items" "(name, model_data) \<in> set items"
    "py_getitem model_data ''constraints'' = Inr (Dict cs)"
    "populate_from_constraints (Dict cs) (init_builder name) = Inr b"
    "generate_model_dict b = Inr m"
proof -
  from assms(1) obtain items where i: "initial = Dict items"
    and all: "list_all2 (\<lambda>p m. \<exists>b. converts p b m) (filter has_constraints items) (models doc)"
    by (rule convert_schema_Inr)
  from list_all2_right [OF all assms(2)] obtain p b where p: "p \<in> set items" and c: "converts p b m"
    by auto
  from c obtain kvs cs where sp: "snd p = Dict kvs"
    and df: "dict_find (PyStr ''constraints'') kvs = Some (Dict cs)"
    and pop: "populate_from_constraints (Dict cs) (init_builder (fst p)) = Inr b"
    and gen: "generate_model_dict b = Inr m"
    by (rule converts_Inr)
  from p have mem: "(fst p, snd p) \<in> set items"
    by simp
  from sp df have get: "py_getitem (snd p) ''constraints'' = Inr (Dict cs)"
    by simp
  from i mem get pop gen show thesis
    by (rule that)
qed

subsection \<open>The sample\<close>

lemmas sample_defs = SAMPLE_SCHEMA_def SAMPLE_FOO_def SAMPLE_BAR_def expected_foo_def expected_bar_def

lemma foo_alone: "convert_schema (Dict [(PyStr ''foo'', SAMPLE_FOO)]) = Inr \<lparr>version = 2, models = [expected_foo]\<rparr>"
  unfolding sample_defs by code_simp

lemma bar_alone: "convert_schema (Dict [(PyStr ''bar'', SAMPLE_BAR)]) = Inr \<lparr>version = 2, models = [expected_bar]\<rparr>"
  unfolding sample_defs by code_simp

section \<open>The claims\<close>

subsection \<open>C1: the scenario\<close>

text \<open>
  Claim C1. On the scenario input (model \<open>foo\<close> with \<open>not_null\<close>, \<open>unique\<close> and
  \<open>accepted_values\<close> constraints, model \<open>bar\<close> with one \<open>not_null\<close> constraint),
  \<^verbatim>\<open>convert_schema\<close> returns a document of version 2 with exactly two model records:
  \<open>foo\<close> with the columns \<open>email\<close>, \<open>favorite_color\<close>, \<open>id\<close>, \<open>likes_puppies\<close> in
  this order and \<open>bar\<close> with the column \<open>id\<close>, each with the tests the scenario lists.
\<close>

theorem scenario_conversion:
  "convert_schema SAMPLE_SCHEMA = Inr \<lparr>version = 2, models = [expected_foo, expected_bar]\<rparr>"
  unfolding sample_defs by code_simp

subsection \<open>C2: unknown test kinds\<close>

text \<open>
  Claim C2, as the code has it. For a test kind outside \<open>unique\<close>, \<open>not_null\<close>,
  \<open>relationships\<close>, \<open>accepted_values\<close> whose values are a list, \<^verbatim>\<open>populate_test\<close>
  raises \<^verbatim>\<open>ValueError('cannot handle any other tests')\<close>: not an
  \<^verbatim>\<open>OperationalError\<close>, and the message does not name the kind. A document in which
  some model's constraints contain such a kind is never converted: \<^verbatim>\<open>convert_schema\<close>
  raises and returns no document.
\<close>

theorem unknown_kind_fails:
  assumes kind: "test_name \<notin> {PyStr ''unique'', PyStr ''not_null'', PyStr ''relationships'',
                                  PyStr ''accepted_values''}"
    and mem: "(name, model_data) \<in> set items"
    and cs: "py_getitem model_data ''constraints'' = Inr (Dict cs)"
    and entry: "(test_name, test_values) \<in> set cs"
  shows "populate_test test_name (Seq vs) b = Inl (ValueError ''cannot handle any other tests'')
       \<and> (\<exists>e. convert_schema (Dict items) = Inl e)"
proof
  from kind have simple: "test_name \<notin> SIMPLE_COLUMN_TESTS"
    and complex: "dict_find test_name COMPLEX_COLUMN_TESTS = None"
    by (auto simp: SIMPLE_COLUMN_TESTS_def COMPLEX_COLUMN_TESTS_def)
  then show "populate_test test_name (Seq vs) b = Inl (ValueError ''cannot handle any other tests'')"
    by (simp add: populate_test_def)
  have fails: "populate_test test_name test_values b1 \<noteq> Inr b2" for b1 b2
    using simple complex by (cases test_values) (simp_all add: populate_test_def)
  show "\<exists>e. convert_schema (Dict items) = Inl e"
  proof (rule not_Inr_Inl)
    fix doc
    show "convert_schema (Dict items) \<noteq> Inr doc"
    proof
      assume "convert_schema (Dict items) = Inr doc"
      from convert_success_populates [OF this mem cs] obtain b0
        where "populate_from_constraints (Dict cs) (init_builder name) = Inr b0" ..
      then have "populate_loop cs (init_builder name) = Inr b0"
        by (simp add: populate_from_constraints_def)
      from populate_loop_mem [OF this entry] fails show False
        by blast
    qed
  qed
qed

theorem unknown_kind_fails_witness:
  "(PyStr ''foo_bar_test'' \<notin> {PyStr ''unique'', PyStr ''not_null'', PyStr ''relationships'',
                                  PyStr ''accepted_values''}
    \<and> (PyStr ''foo'', Dict [(PyStr ''constraints'', Dict [(PyStr ''foo_bar_test'', Seq [])])])
         \<in> set [(PyStr ''foo'', Dict [(PyStr ''constraints'', Dict [(PyStr ''foo_bar_test'', Seq [])])])]
    \<and> py_getitem (Dict [(PyStr ''constraints'', Dict [(PyStr ''foo_bar_test'', Seq [])])]) ''constraints''
         = Inr (Dict [(PyStr ''foo_bar_test'', Seq [])])
    \<and> (PyStr ''foo_bar_test'', Seq []) \<in> set [(PyStr ''foo_bar_test'', Seq [])])
   \<and> (populate_test (PyStr ''foo_bar_test'') (Seq []) (init_builder (PyStr ''foo'')) =
         Inl (ValueError ''cannot handle any other tests'')
       \<and> (\<exists>e. convert_schema
                 (Dict [(PyStr ''foo'', Dict [(PyStr ''constraints'', Dict [(PyStr ''foo_bar_test'', Seq [])])])])
               = Inl e))"
proof -
  have h1: "PyStr ''foo_bar_test'' \<notin> {PyStr ''unique'', PyStr ''not_null'', PyStr ''relationships'',
                                  PyStr ''accepted_values''}"
    by simp
  have h2: "(PyStr ''foo'', Dict [(PyStr ''constraints'', Dict [(PyStr ''foo_bar_test'', Seq [])])])
         \<in> set [(PyStr ''foo'', Dict [(PyStr ''constraints'', Dict [(PyStr ''foo_bar_test'', Seq [])])])]"
    by simp
  have h3: "py_getitem (Dict [(PyStr ''constraints'', Dict [(PyStr ''foo_bar_test'', Seq [])])]) ''constraints''
         = Inr (Dict [(PyStr ''foo_bar_test'', Seq [])])"
    by simp
  have h4: "(PyStr ''foo_bar_test'', Seq []) \<in> set [(PyStr ''foo_bar_test'', Seq [])]"
    by simp
  from h1 h2 h3 h4 unknown_kind_fails [OF h1 h2 h3 h4, of "[]" "init_builder (PyStr ''foo'')"]
  show ?thesis
    by (intro conjI) (simp_all only: simp_thms)
qed

text \<open>
  The claim as the specification states it fails on the kind \<open>foo_bar_test\<close>: the
  exception is a \<^verbatim>\<open>ValueError\<close> with a fixed message.
\<close>

theorem unknown_kind_counterexample:
  "populate_test (PyStr ''foo_bar_test'') (Seq []) (init_builder (PyStr ''foo'')) =
     Inl (ValueError ''cannot handle any other tests'')
   \<and> \<not> is_OperationalError (ValueError ''cannot handle any other tests'')"
  by (simp add: populate_test_def SIMPLE_COLUMN_TESTS_def COMPLEX_COLUMN_TESTS_def)

subsection \<open>C3: test values that are not a list\<close>

text \<open>
  Claim C3. Test values that are not a list make \<^verbatim>\<open>populate_test\<close> fail, but not
  with the \<^verbatim>\<open>OperationalError\<close> it means to raise: formatting the message evaluates the
  unbound name \<^verbatim>\<open>model_name\<close>, and the exception that leaves \<^verbatim>\<open>populate_test\<close>
  and \<^verbatim>\<open>convert_schema\<close> is a \<^verbatim>\<open>NameError\<close>. Here the values of \<open>not_null\<close> are the
  string \<open>id\<close>.
\<close>

theorem non_list_values_NameError:
  "populate_test (PyStr ''not_null'') (Scalar (PyStr ''id'')) (init_builder (PyStr ''foo'')) =
     Inl (NameError ''model_name'')
   \<and> convert_schema
       (Dict [(PyStr ''foo'', Dict [(PyStr ''constraints'',
                 Dict [(PyStr ''not_null'', Scalar (PyStr ''id''))])])]) =
     Inl (NameError ''model_name'')"
  by (simp add: populate_test_def convert_schema_def populate_from_constraints_def)

subsection \<open>C4: a complex test without its designator key\<close>

text \<open>
  Claim C4. For a complex test kind with designator key \<open>column_key\<close> and a mapping
  element that lacks the key: \<^verbatim>\<open>handle_complex_column\<close> fails on every list of test
  values that holds the element, whatever the builder; when the elements before it have
  been handled, the exception is the \<^verbatim>\<open>OperationalError\<close> whose message is built from
  the test kind, the model name, the designator key and the raw element. A document in
  which some model's constraints hold such an element under the kind is never converted:
  \<^verbatim>\<open>convert_schema\<close> raises and returns no document.
\<close>

theorem missing_designator_fails:
  assumes key: "dict_find test_name COMPLEX_COLUMN_TESTS = Some column_key"
    and missing: "dict_find (PyStr column_key) kvs = None"
    and elem: "Dict kvs \<in> set vs"
    and pre: "handle_complex_column pre test_name b = Inr b1"
    and mem: "(name, model_data) \<in> set items"
    and cs: "py_getitem model_data ''constraints'' = Inr (Dict cs)"
    and entry: "(test_name, Seq vs) \<in> set cs"
  shows \<open>(\<exists>e. handle_complex_column vs test_name b' = Inl e)
         \<and> handle_complex_column (pre @ Dict kvs # post) test_name b =
             Inl (OperationalError ''got an invalid {} test in model {}, no "{}" value in {}''
                    [Scalar test_name, Scalar (model_name b), Scalar (PyStr column_key), Dict kvs])
         \<and> (\<exists>e. convert_schema (Dict items) = Inl e)\<close>
proof (intro conjI)
  have never: "complex_loop column_key vs test_name b2 \<noteq> Inr b3" for b2 b3
  proof
    assume "complex_loop column_key vs test_name b2 = Inr b3"
    from complex_loop_mem [OF this elem] missing show False
      by simp
  qed
  show "\<exists>e. handle_complex_column vs test_name b' = Inl e"
    by (rule not_Inr_Inl) (simp add: handle_complex_column_def key never)
  from pre key have loop: "complex_loop column_key pre test_name b = Inr b1"
    by (simp add: handle_complex_column_def)
  then have "model_name b1 = model_name b"
    by (rule complex_loop_name)
  with loop missing show \<open>handle_complex_column (pre @ Dict kvs # post) test_name b =
           Inl (OperationalError ''got an invalid {} test in model {}, no "{}" value in {}''
                  [Scalar test_name, Scalar (model_name b), Scalar (PyStr column_key), Dict kvs])\<close>
    by (simp add: handle_complex_column_def key complex_loop_append)
  show "\<exists>e. convert_schema (Dict items) = Inl e"
  proof (rule not_Inr_Inl)
    fix doc
    show "convert_schema (Dict items) \<noteq> Inr doc"
    proof
      assume "convert_schema (Dict items) = Inr doc"
      from convert_success_populates [OF this mem cs] obtain b0
        where "populate_from_constraints (Dict cs) (init_builder name) = Inr b0" ..
      then have "populate_loop cs (init_builder name) = Inr b0"
        by (simp add: populate_from_constraints_def)
      from populate_loop_mem [OF this entry] obtain b2 b3
        where "populate_test test_name (Seq vs) b2 = Inr b3" by blast
      with key COMPLEX_not_SIMPLE [OF key] have "complex_loop column_key vs test_name b2 = Inr b3"
        by (simp add: populate_test_def handle_complex_column_def)
      with never show False ..
    qed
  qed
qed

theorem missing_designator_fails_witness:
  \<open>(dict_find (PyStr ''accepted_values'') COMPLEX_COLUMN_TESTS = Some ''field''
    \<and> dict_find (PyStr ''field'') [(PyStr ''values'', Seq [Scalar (PyInt 1)])] = None
    \<and> Dict [(PyStr ''values'', Seq [Scalar (PyInt 1)])]
         \<in> set [Dict [(PyStr ''values'', Seq [Scalar (PyInt 1)])]]
    \<and> handle_complex_column [] (PyStr ''accepted_values'') (init_builder (PyStr ''foo''))
         = Inr (init_builder (PyStr ''foo''))
    \<and> (PyStr ''foo'', Dict [(PyStr ''constraints'', Dict [(PyStr ''accepted_values'',
           Seq [Dict [(PyStr ''values'', Seq [Scalar (PyInt 1)])]])])])
         \<in> set [(PyStr ''foo'', Dict [(PyStr ''constraints'', Dict [(PyStr ''accepted_values'',
                   Seq [Dict [(PyStr ''values'', Seq [Scalar (PyInt 1)])]])])])]
    \<and> py_getitem (Dict [(PyStr ''constraints'', Dict [(PyStr ''accepted_values'',
           Seq [Dict [(PyStr ''values'', Seq [Scalar (PyInt 1)])]])])]) ''constraints''
         = Inr (Dict [(PyStr ''accepted_values'', Seq [Dict [(PyStr ''values'', Seq [Scalar (PyInt 1)])]])])
    \<and> (PyStr ''accepted_values'', Seq [Dict [(PyStr ''values'', Seq [Scalar (PyInt 1)])]])
         \<in> set [(PyStr ''accepted_values'', Seq [Dict [(PyStr ''values'', Seq [Scalar (PyInt 1)])]])])
   \<and> ((\<exists>e. handle_complex_column [Dict [(PyStr ''values'', Seq [Scalar (PyInt 1)])]]
               (PyStr ''accepted_values'') (init_builder (PyStr ''foo'')) = Inl e)
       \<and> handle_complex_column ([] @ Dict [(PyStr ''values'', Seq [Scalar (PyInt 1)])] # [])
          (PyStr ''accepted_values'') (init_builder (PyStr ''foo'')) =
         Inl (OperationalError ''got an invalid {} test in model {}, no "{}" value in {}''
                [Scalar (PyStr ''accepted_values''), Scalar (model_name (init_builder (PyStr ''foo''))),
                 Scalar (PyStr ''field''), Dict [(PyStr ''values'', Seq [Scalar (PyInt 1)])]])
       \<and> (\<exists>e. convert_schema
                 (Dict [(PyStr ''foo'', Dict [(PyStr ''constraints'', Dict [(PyStr ''accepted_values'',
                          Seq [Dict [(PyStr ''values'', Seq [Scalar (PyInt 1)])]])])])])
               = Inl e))\<close>
proof -
  have h1: "dict_find (PyStr ''accepted_values'') COMPLEX_COLUMN_TESTS = Some ''field''"
    by (simp add: COMPLEX_COLUMN_TESTS_def)
  have h2: "dict_find (PyStr ''field'') [(PyStr ''values'', Seq [Scalar (PyInt 1)])] = None"
    by simp
  have h3: "Dict [(PyStr ''values'', Seq [Scalar (PyInt 1)])]
         \<in> set [Dict [(PyStr ''values'', Seq [Scalar (PyInt 1)])]]"
    by simp
  have h4: "handle_complex_column [] (PyStr ''accepted_values'') (init_builder (PyStr ''foo''))
         = Inr (init_builder (PyStr ''foo''))"
    by (simp add: handle_complex_column_def h1)
  have h5: "(PyStr ''foo'', Dict [(PyStr ''constraints'', Dict [(PyStr ''accepted_values'',
           Seq [Dict [(PyStr ''values'', Seq [Scalar (PyInt 1)])]])])])
         \<in> set [(PyStr ''foo'', Dict [(PyStr ''constraints'', Dict [(PyStr ''accepted_values'',
                   Seq [Dict [(PyStr ''values'', Seq [Scalar (PyInt 1)])]])])])]"
    by simp
  have h6: "py_getitem (Dict [(PyStr ''constraints'', Dict [(PyStr ''accepted_values'',
           Seq [Dict [(PyStr ''values'', Seq [Scalar (PyInt 1)])]])])]) ''constraints''
         = Inr (Dict [(PyStr ''accepted_values'', Seq [Dict [(PyStr ''values'', Seq [Scalar (PyInt 1)])]])])"
    by simp
  have h7: "(PyStr ''accepted_values'', Seq [Dict [(PyStr ''values'', Seq [Scalar (PyInt 1)])]])
         \<in> set [(PyStr ''accepted_values'', Seq [Dict [(PyStr ''values'', Seq [Scalar (PyInt 1)])]])]"
    by simp
  note c = missing_designator_fails [OF h1 h2 h3 h4 h5 h6 h7, of "init_builder (PyStr ''foo'')" "[]"]
  from h1 h2 h3 h4 h5 h6 h7 have hyps:
    "dict_find (PyStr ''accepted_values'') COMPLEX_COLUMN_TESTS = Some ''field''
    \<and> dict_find (PyStr ''field'') [(PyStr ''values'', Seq [Scalar (PyInt 1)])] = None
    \<and> Dict [(PyStr ''values'', Seq [Scalar (PyInt 1)])]
         \<in> set [Dict [(PyStr ''values'', Seq [Scalar (PyInt 1)])]]
    \<and> handle_complex_column [] (PyStr ''accepted_values'') (init_builder (PyStr ''foo''))
         = Inr (init_builder (PyStr ''foo''))
    \<and> (PyStr ''foo'', Dict [(PyStr ''constraints'', Dict [(PyStr ''accepted_values'',
           Seq [Dict [(PyStr ''values'', Seq [Scalar (PyInt 1)])]])])])
         \<in> set [(PyStr ''foo'', Dict [(PyStr ''constraints'', Dict [(PyStr ''accepted_values'',
                   Seq [Dict [(PyStr ''values'', Seq [Scalar (PyInt 1)])]])])])]
    \<and> py_getitem (Dict [(PyStr ''constraints'', Dict [(PyStr ''accepted_values'',
           Seq [Dict [(PyStr ''values'', Seq [Scalar (PyInt 1)])]])])]) ''constraints''
         = Inr (Dict [(PyStr ''accepted_values'', Seq [Dict [(PyStr ''values'', Seq [Scalar (PyInt 1)])]])])
    \<and> (PyStr ''accepted_values'', Seq [Dict [(PyStr ''values'', Seq [Scalar (PyInt 1)])]])
         \<in> set [(PyStr ''accepted_values'', Seq [Dict [(PyStr ''values'', Seq [Scalar (PyInt 1)])]])]"
    by (intro conjI)
  from hyps c show ?thesis
    by (rule conjI)
qed

subsection \<open>C5: models without constraints\<close>

text \<open>
  Claim C5. A model whose definition mapping has no \<open>constraints\<close> key is skipped: the
  conversion of the document is the conversion of the document without that model, be it
  a result or an exception, so the model adds no record and no error. The names of the
  output records are the names of the models with constraints, in order; a model name
  that only the skipped model carries is not among them.
\<close>

theorem drop_rule:
  assumes "dict_find (PyStr ''constraints'') kvs = None"
  shows "convert_schema (Dict (xs @ (name, Dict kvs) # ys)) = convert_schema (Dict (xs @ ys))
       \<and> (\<forall>doc. convert_schema (Dict (xs @ (name, Dict kvs) # ys)) = Inr doc \<longrightarrow>
             map m_name (models doc) = map fst (filter has_constraints (xs @ ys))
             \<and> (name \<notin> fst ` set (xs @ ys) \<longrightarrow> name \<notin> m_name ` set (models doc)))"
proof (intro conjI allI impI)
  from assms have skip: "convert_loop ((name, Dict kvs) # ys) acc = convert_loop ys acc" for acc
    by simp
  show same: "convert_schema (Dict (xs @ (name, Dict kvs) # ys)) = convert_schema (Dict (xs @ ys))"
    by (cases "convert_loop xs []")
       (simp_all add: convert_schema_def convert_loop_append skip del: convert_loop.simps)
  fix doc
  assume "convert_schema (Dict (xs @ (name, Dict kvs) # ys)) = Inr doc"
  with same have "convert_schema (Dict (xs @ ys)) = Inr doc"
    by simp
  then obtain items where "Dict (xs @ ys) = Dict items"
    and "list_all2 (\<lambda>p m. \<exists>b. converts p b m) (filter has_constraints items) (models doc)"
    by (rule convert_schema_Inr)
  then have "map m_name (models doc) = map fst (filter has_constraints items)" and "items = xs @ ys"
    by (simp_all add: converts_names)
  then show names: "map m_name (models doc) = map fst (filter has_constraints (xs @ ys))"
    by simp
  assume "name \<notin> fst ` set (xs @ ys)"
  then have "name \<notin> set (map fst (filter has_constraints (xs @ ys)))"
    by auto
  with names have "name \<notin> set (map m_name (models doc))"
    by simp
  then show "name \<notin> m_name ` set (models doc)"
    by simp
qed

theorem drop_rule_witness:
  "dict_find (PyStr ''constraints'') [(PyStr ''description'', Scalar (PyStr ''no tests''))] = None
   \<and> convert_schema
       (Dict ([(PyStr ''foo'', SAMPLE_FOO)]
              @ (PyStr ''baz'', Dict [(PyStr ''description'', Scalar (PyStr ''no tests''))])
              # [(PyStr ''bar'', SAMPLE_BAR)])) =
     Inr \<lparr>version = 2, models = [expected_foo, expected_bar]\<rparr>
   \<and> map m_name (models \<lparr>version = 2, models = [expected_foo, expected_bar]\<rparr>) =
       [PyStr ''foo'', PyStr ''bar'']
   \<and> PyStr ''baz'' \<notin> m_name ` set (models \<lparr>version = 2, models = [expected_foo, expected_bar]\<rparr>)"
proof -
  let ?kvs = "[(PyStr ''description'', Scalar (PyStr ''no tests''))]"
  let ?doc = "\<lparr>version = 2, models = [expected_foo, expected_bar]\<rparr>"
  have h: "dict_find (PyStr ''constraints'') ?kvs = None"
    by simp
  note rule = drop_rule [OF h, of "[(PyStr ''foo'', SAMPLE_FOO)]" "PyStr ''baz''" "[(PyStr ''bar'', SAMPLE_BAR)]"]
  have without: "convert_schema (Dict ([(PyStr ''foo'', SAMPLE_FOO)] @ [(PyStr ''bar'', SAMPLE_BAR)])) = Inr ?doc"
    unfolding sample_defs by code_simp
  with rule have conv: "convert_schema
       (Dict ([(PyStr ''foo'', SAMPLE_FOO)] @ (PyStr ''baz'', Dict ?kvs) # [(PyStr ''bar'', SAMPLE_BAR)])) = Inr ?doc"
    by simp
  have fresh: "PyStr ''baz'' \<notin> fst ` set ([(PyStr ''foo'', SAMPLE_FOO)] @ [(PyStr ''bar'', SAMPLE_BAR)])"
    by simp
  have both: "filter has_constraints ([(PyStr ''foo'', SAMPLE_FOO)] @ [(PyStr ''bar'', SAMPLE_BAR)]) =
              [(PyStr ''foo'', SAMPLE_FOO), (PyStr ''bar'', SAMPLE_BAR)]"
    by (simp add: has_constraints_def sample_defs)
  from rule conv have "map m_name (models ?doc) =
      map fst (filter has_constraints ([(PyStr ''foo'', SAMPLE_FOO)] @ [(PyStr ''bar'', SAMPLE_BAR)]))"
    by blast
  then have names: "map m_name (models ?doc) = [PyStr ''foo'', PyStr ''bar'']"
    by (simp only: both list.map fst_conv)
  from rule conv fresh have absent: "PyStr ''baz'' \<notin> m_name ` set (models ?doc)"
    by blast
  from h conv names absent show ?thesis
    by (intro conjI)
qed

subsection \<open>C6: the order of the columns\<close>

text \<open>
  Claim C6. In every model record of a successful conversion the columns are strictly
  ascending by name in Python's order; when the names are strings, this is the
  lexicographic order of the strings.
\<close>

theorem columns_strictly_ascending:
  assumes "convert_schema initial = Inr doc" and "m \<in> set (models doc)"
    and "m_columns m = Some cols"
  shows "sorted_wrt (\<lambda>a b. py_lt a b = Inr True) (map c_name cols)
       \<and> (list_all is_str (map c_name cols) \<longrightarrow>
            sorted_wrt (<) (map (\<lambda>c. str_of (c_name c)) cols))"
proof -
  from assms(1,2) obtain name cs b where
    pop: "populate_from_constraints (Dict cs) (init_builder name) = Inr b"
    and gen: "generate_model_dict b = Inr m"
    by (rule convert_model_origin)
  from pop have wf: "wf_builder b"
    by (simp add: populate_effect)
  from wf gen assms(3) obtain sorted_cols where
    s: "py_sort (\<lambda>c. Inr (c_name c)) (map snd (columns b)) = Inr sorted_cols"
    and names: "map c_name cols = map c_name sorted_cols"
    by (rule generated_columns)
  from wf have "distinct (map (\<lambda>c. key_norm (c_name c)) (map snd (columns b)))"
    by (rule wf_names_distinct)
  with s have "sorted_wrt (\<lambda>a b. py_lt a b = Inr True) (map c_name sorted_cols)"
    by (rule py_sort_strict)
  with names have py: "sorted_wrt (\<lambda>a b. py_lt a b = Inr True) (map c_name cols)"
    by simp
  have "sorted_wrt (<) (map (\<lambda>c. str_of (c_name c)) cols)"
    if strs: "list_all is_str (map c_name cols)"
  proof -
    from py have "sorted_wrt (\<lambda>x y. py_lt (c_name x) (c_name y) = Inr True) cols"
      by (simp add: sorted_wrt_map)
    then have "sorted_wrt (\<lambda>x y. str_of (c_name x) < str_of (c_name y)) cols"
    proof (rule sorted_wrt_mono_rel [rotated])
      fix x y
      assume "x \<in> set cols" "y \<in> set cols" and lt: "py_lt (c_name x) (c_name y) = Inr True"
      with strs have "is_str (c_name x)" "is_str (c_name y)"
        by (simp_all add: list_all_iff)
      with lt show "str_of (c_name x) < str_of (c_name y)"
        by (simp add: py_lt_str)
    qed
    then show ?thesis
      by (simp add: sorted_wrt_map)
  qed
  with py show ?thesis
    by blast
qed

theorem columns_strictly_ascending_witness:
  "(convert_schema (Dict [(PyStr ''foo'', SAMPLE_FOO)]) = Inr \<lparr>version = 2, models = [expected_foo]\<rparr>
    \<and> expected_foo \<in> set (models \<lparr>version = 2, models = [expected_foo]\<rparr>)
    \<and> m_columns expected_foo = Some (the (m_columns expected_foo))
    \<and> list_all is_str (map c_name (the (m_columns expected_foo))))
   \<and> sorted_wrt (\<lambda>a b. py_lt a b = Inr True) (map c_name (the (m_columns expected_foo)))
   \<and> sorted_wrt (<) (map (\<lambda>c. str_of (c_name c)) (the (m_columns expected_foo)))
   \<and> map c_name (the (m_columns expected_foo)) =
       [PyStr ''email'', PyStr ''favorite_color'', PyStr ''id'', PyStr ''likes_puppies'']"
proof -
  have h2: "expected_foo \<in> set (models \<lparr>version = 2, models = [expected_foo]\<rparr>)"
    by simp
  have h3: "m_columns expected_foo = Some (the (m_columns expected_foo))"
    by (simp add: expected_foo_def)
  have names: "map c_name (the (m_columns expected_foo)) =
       [PyStr ''email'', PyStr ''favorite_color'', PyStr ''id'', PyStr ''likes_puppies'']"
    by (simp add: expected_foo_def)
  have strs: "list_all is_str (map c_name (the (m_columns expected_foo)))"
    by (simp add: names)
  note asc = columns_strictly_ascending [OF foo_alone h2 h3]
  from asc have py: "sorted_wrt (\<lambda>a b. py_lt a b = Inr True) (map c_name (the (m_columns expected_foo)))"
    by (rule conjunct1)
  from asc strs have lex: "sorted_wrt (<) (map (\<lambda>c. str_of (c_name c)) (the (m_columns expected_foo)))"
    by blast
  from foo_alone h2 h3 strs py lex names show ?thesis
    by (intro conjI)
qed

subsection \<open>C7: the order of the tests\<close>

text \<open>
  Claim C7. In every column of a successful conversion the test entries are ascending by
  kind name, where the kind name of a bare string entry is the string itself and that of
  a single-key mapping entry is its sole key; the kind names are strings, and they are the
  keys that \<^verbatim>\<open>sort_keyfunc\<close> computes. The sort only reorders and is stable: the entries
  are those of the list the builder had accumulated for the column, and for each kind
  name the entries with that name are in the order of that list.
\<close>

theorem tests_sorted_stable:
  assumes "convert_schema initial = Inr doc" and "m \<in> set (models doc)"
    and "m_columns m = Some cols" and "c \<in> set cols"
  shows "map_exn sort_keyfunc (c_tests c) = Inr (map kind_name (c_tests c))
       \<and> list_all is_str (map kind_name (c_tests c))
       \<and> sorted (map (\<lambda>t. str_of (kind_name t)) (c_tests c))
       \<and> (\<exists>items name model_data constraints b.
             initial = Dict items \<and> (name, model_data) \<in> set items
             \<and> py_getitem model_data ''constraints'' = Inr constraints
             \<and> populate_from_constraints constraints (init_builder name) = Inr b
             \<and> generate_model_dict b = Inr m
             \<and> mset (c_tests c) = mset (tests_of (c_name c) b)
             \<and> (\<forall>k. filter (\<lambda>t. kind_name t = k) (c_tests c) =
                     filter (\<lambda>t. kind_name t = k) (tests_of (c_name c) b)))"
proof -
  from assms(1,2) obtain items name model_data cs b where
    orig: "initial = Dict items" "(name, model_data) \<in> set items"
      "py_getitem model_data ''constraints'' = Inr (Dict cs)"
    and pop: "populate_from_constraints (Dict cs) (init_builder name) = Inr b"
    and gen: "generate_model_dict b = Inr m"
    by (rule convert_model_origin)
  from pop have wf: "wf_builder b"
    by (simp add: populate_effect)
  from wf gen assms(3,4) obtain k c0 where c0: "(k, c0) \<in> set (columns b)"
    and n: "c_name c = c_name c0"
    and s: "py_sort sort_keyfunc (c_tests c0) = Inr (c_tests c)"
    by (blast dest: generated_column_origin)
  from wf c0 have t0: "tests_of (c_name c0) b = c_tests c0" and ok0: "list_all entry_ok (c_tests c0)"
    by (simp_all add: wf_tests_of)
  from s have "set (c_tests c) = set (c_tests c0)"
    by (rule py_sort_set)
  with ok0 have ok: "list_all entry_ok (c_tests c)"
    by (simp add: list_all_iff)
  from ok have names: "map (key_val sort_keyfunc) (c_tests c) = map kind_name (c_tests c)"
    by (rule entry_ok_kind_names)
  from ok have keys: "map_exn sort_keyfunc (c_tests c) = Inr (map kind_name (c_tests c))"
    and strs: "list_all is_str (map kind_name (c_tests c))"
    using entry_ok_keys [of "c_tests c"] by (simp_all only: names)
  from ok0 have "list_all is_str (map (key_val sort_keyfunc) (c_tests c0))"
    by (simp add: entry_ok_keys)
  with s have "sorted (map (\<lambda>t. str_of (key_val sort_keyfunc t)) (c_tests c))"
    by (rule py_sort_sorted_str)
  then have "sorted (map str_of (map (key_val sort_keyfunc) (c_tests c)))"
    by (simp add: comp_def)
  then have "sorted (map str_of (map kind_name (c_tests c)))"
    by (simp only: names)
  then have asc: "sorted (map (\<lambda>t. str_of (kind_name t)) (c_tests c))"
    by (simp add: comp_def)
  from s have "mset (c_tests c) = mset (c_tests c0)"
    by (rule py_sort_mset)
  then have perm: "mset (c_tests c) = mset (tests_of (c_name c) b)"
    by (simp add: n t0)
  have stable: "filter (\<lambda>t. kind_name t = k) (c_tests c) =
        filter (\<lambda>t. kind_name t = k) (tests_of (c_name c) b)" for k
  proof -
    have "filter (\<lambda>t. kind_name t = k) (c_tests c) =
          filter (\<lambda>t. sort_keyfunc t = Inr k) (c_tests c)"
      using ok by (rule entry_ok_filter)
    also have "\<dots> = filter (\<lambda>t. sort_keyfunc t = Inr k) (c_tests c0)"
      using s by (rule py_sort_stable)
    also have "\<dots> = filter (\<lambda>t. kind_name t = k) (c_tests c0)"
      using ok0 by (rule entry_ok_filter [symmetric])
    finally show ?thesis
      by (simp add: n t0)
  qed
  from orig pop gen perm stable have
    "\<exists>items name model_data constraints b.
             initial = Dict items \<and> (name, model_data) \<in> set items
             \<and> py_getitem model_data ''constraints'' = Inr constraints
             \<and> populate_from_constraints constraints (init_builder name) = Inr b
             \<and> generate_model_dict b = Inr m
             \<and> mset (c_tests c) = mset (tests_of (c_name c) b)
             \<and> (\<forall>k. filter (\<lambda>t. kind_name t = k) (c_tests c) =
                     filter (\<lambda>t. kind_name t = k) (tests_of (c_name c) b))"
    by blast
  with keys strs asc show ?thesis
    by (intro conjI)
qed

theorem tests_sorted_stable_witness:
  "(convert_schema (Dict [(PyStr ''foo'', SAMPLE_FOO)]) = Inr \<lparr>version = 2, models = [expected_foo]\<rparr>
    \<and> expected_foo \<in> set (models \<lparr>version = 2, models = [expected_foo]\<rparr>)
    \<and> m_columns expected_foo = Some (the (m_columns expected_foo))
    \<and> the (m_columns expected_foo) ! 1 \<in> set (the (m_columns expected_foo)))
   \<and> c_tests (the (m_columns expected_foo) ! 1) =
       [Single (PyStr ''accepted_values'')
          [(PyStr ''values'', Seq [Scalar (PyStr ''blue''), Scalar (PyStr ''green'')])],
        Bare (PyStr ''not_null'')]
   \<and> map kind_name (c_tests (the (m_columns expected_foo) ! 1)) =
       [PyStr ''accepted_values'', PyStr ''not_null'']
   \<and> map_exn sort_keyfunc (c_tests (the (m_columns expected_foo) ! 1)) =
       Inr (map kind_name (c_tests (the (m_columns expected_foo) ! 1)))
   \<and> sorted (map (\<lambda>t. str_of (kind_name t)) (c_tests (the (m_columns expected_foo) ! 1)))"
proof -
  let ?c = "the (m_columns expected_foo) ! 1"
  have h2: "expected_foo \<in> set (models \<lparr>version = 2, models = [expected_foo]\<rparr>)"
    by simp
  have h3: "m_columns expected_foo = Some (the (m_columns expected_foo))"
    by (simp add: expected_foo_def)
  have h4: "?c \<in> set (the (m_columns expected_foo))"
    by (simp add: expected_foo_def)
  have tests: "c_tests ?c =
       [Single (PyStr ''accepted_values'')
          [(PyStr ''values'', Seq [Scalar (PyStr ''blue''), Scalar (PyStr ''green'')])],
        Bare (PyStr ''not_null'')]"
    by (simp add: expected_foo_def)
  have names: "map kind_name (c_tests ?c) = [PyStr ''accepted_values'', PyStr ''not_null'']"
    unfolding tests by simp
  note c = tests_sorted_stable [OF foo_alone h2 h3 h4]
  from c have keys: "map_exn sort_keyfunc (c_tests ?c) = Inr (map kind_name (c_tests ?c))"
    by (rule conjunct1)
  from c have asc: "sorted (map (\<lambda>t. str_of (kind_name t)) (c_tests ?c))"
    by blast
  from foo_alone h2 h3 h4 tests names keys asc show ?thesis
    by (intro conjI)
qed

subsection \<open>C8: one column record per name\<close>



subsection \<open>C9: the entry of a complex test\<close>

text \<open>
  Claim C9. For an element of a complex test that contains the designator key,
  \<^verbatim>\<open>handle_complex_column\<close> calls \<^verbatim>\<open>add_test\<close> with the designator's value as the
  column name and with the one-key entry \<^verbatim>\<open>{test_name: params}\<close>, where \<open>params\<close> is the
  element without the designator key, the other keys in their order. On a reached
  builder and a scalar designator value the call succeeds, appends that entry to the
  column's tests and leaves the other columns' tests alone.
\<close>

theorem complex_entry_shape:
  assumes key: "dict_find test_name COMPLEX_COLUMN_TESTS = Some column_key"
    and des: "dict_find (PyStr column_key) kvs = Some column_name"
  shows "handle_complex_column (Dict kvs # rest) test_name b =
           (case add_test column_name
                   (Single test_name (filter (\<lambda>(k, v). k \<noteq> PyStr column_key) kvs)) b of
              Inl e \<Rightarrow> Inl e
            | Inr b' \<Rightarrow> handle_complex_column rest test_name b')
       \<and> (\<forall>k. wf_builder b \<and> column_name = Scalar k \<longrightarrow>
            (\<exists>b'. handle_complex_column [Dict kvs] test_name b = Inr b'
               \<and> tests_of k b' = tests_of k b
                    @ [Single test_name (filter (\<lambda>(k, v). k \<noteq> PyStr column_key) kvs)]
               \<and> (\<forall>k'. \<not> py_eq k k' \<longrightarrow> tests_of k' b' = tests_of k' b)))"
proof (intro conjI allI impI)
  let ?entry = "Single test_name (filter (\<lambda>(k, v). k \<noteq> PyStr column_key) kvs)"
  show step: "handle_complex_column (Dict kvs # rest) test_name b =
           (case add_test column_name ?entry b of
              Inl e \<Rightarrow> Inl e
            | Inr b' \<Rightarrow> handle_complex_column rest test_name b')" for rest
    using key des by (simp add: handle_complex_column_def split: sum.splits)
  fix k
  assume a: "wf_builder b \<and> column_name = Scalar k"
  then have cok: "list_all column_ok (columns b)"
    by (simp add: wf_builder_def)
  from add_test_Scalar [OF cok, of k ?entry] obtain b' where b': "add_test (Scalar k) ?entry b = Inr b'"
    by blast
  have "tests_of k' b' = (if py_eq k k' then tests_of k' b @ [?entry] else tests_of k' b)" for k'
    using cok b' by (rule add_test_tests_of)
  then have "tests_of k b' = tests_of k b @ [?entry]"
    and "\<forall>k'. \<not> py_eq k k' \<longrightarrow> tests_of k' b' = tests_of k' b"
    by simp_all
  moreover from a b' key have "handle_complex_column [Dict kvs] test_name b = Inr b'"
    by (simp add: step [of "[]"]) (simp add: handle_complex_column_def)
  ultimately show "\<exists>b'. handle_complex_column [Dict kvs] test_name b = Inr b'
               \<and> tests_of k b' = tests_of k b @ [?entry]
               \<and> (\<forall>k'. \<not> py_eq k k' \<longrightarrow> tests_of k' b' = tests_of k' b)"
    by blast
qed

theorem complex_entry_shape_witness:
  "(dict_find (PyStr ''accepted_values'') COMPLEX_COLUMN_TESTS = Some ''field''
    \<and> dict_find (PyStr ''field'')
         [(PyStr ''field'', Scalar (PyStr ''favorite_color'')),
          (PyStr ''values'', Seq [Scalar (PyStr ''blue''), Scalar (PyStr ''green'')])]
       = Some (Scalar (PyStr ''favorite_color''))
    \<and> wf_builder (init_builder (PyStr ''foo'')))
   \<and> (\<exists>b'. handle_complex_column
              [Dict [(PyStr ''field'', Scalar (PyStr ''favorite_color'')),
                     (PyStr ''values'', Seq [Scalar (PyStr ''blue''), Scalar (PyStr ''green'')])]]
              (PyStr ''accepted_values'') (init_builder (PyStr ''foo'')) = Inr b'
          \<and> tests_of (PyStr ''favorite_color'') b' =
              [Single (PyStr ''accepted_values'')
                 [(PyStr ''values'', Seq [Scalar (PyStr ''blue''), Scalar (PyStr ''green'')])]])"
proof -
  let ?kvs = "[(PyStr ''field'', Scalar (PyStr ''favorite_color'')),
          (PyStr ''values'', Seq [Scalar (PyStr ''blue''), Scalar (PyStr ''green'')])]"
  let ?b = "init_builder (PyStr ''foo'')"
  have h1: "dict_find (PyStr ''accepted_values'') COMPLEX_COLUMN_TESTS = Some ''field''"
    by (simp add: COMPLEX_COLUMN_TESTS_def)
  have h2: "dict_find (PyStr ''field'') ?kvs = Some (Scalar (PyStr ''favorite_color''))"
    by simp
  have h3: "wf_builder ?b"
    by (simp add: wf_builder_def init_builder_def)
  have params: "filter (\<lambda>(k, v). k \<noteq> PyStr ''field'') ?kvs =
                [(PyStr ''values'', Seq [Scalar (PyStr ''blue''), Scalar (PyStr ''green'')])]"
    by simp
  have empty: "tests_of (PyStr ''favorite_color'') ?b = []"
    by (simp add: tests_of_def init_builder_def)
  from complex_entry_shape [OF h1 h2, of "[]" ?b] h3
  have "\<exists>b'. handle_complex_column [Dict ?kvs] (PyStr ''accepted_values'') ?b = Inr b'
          \<and> tests_of (PyStr ''favorite_color'') b' =
              tests_of (PyStr ''favorite_color'') ?b
              @ [Single (PyStr ''accepted_values'') (filter (\<lambda>(k, v). k \<noteq> PyStr ''field'') ?kvs)]"
    by blast
  then have concl: "\<exists>b'. handle_complex_column [Dict ?kvs] (PyStr ''accepted_values'') ?b = Inr b'
          \<and> tests_of (PyStr ''favorite_color'') b' =
              [Single (PyStr ''accepted_values'')
                 [(PyStr ''values'', Seq [Scalar (PyStr ''blue''), Scalar (PyStr ''green'')])]]"
    by (simp only: params empty append_Nil)
  from h1 h2 h3 concl show ?thesis
    by (intro conjI)
qed

subsection \<open>C10: empty constraints\<close>

text \<open>
  Claim C10. A model whose \<open>constraints\<close> key holds the empty mapping is kept: when the
  models before and after it convert, the document converts, and the output holds for
  that model, at its place, a record with the name only, without the keys \<open>tests\<close> and
  \<open>columns\<close>.
\<close>

theorem empty_constraints_name_only:
  assumes empty: "dict_find (PyStr ''constraints'') kvs = Some (Dict [])"
    and before: "convert_schema (Dict xs) = Inr d1"
    and after: "convert_schema (Dict ys) = Inr d2"
  shows "convert_schema (Dict (xs @ (name, Dict kvs) # ys)) =
           Inr \<lparr>version = 2,
                models = models d1 @ \<lparr>m_name = name, m_tests = None, m_columns = None\<rparr> # models d2\<rparr>"
proof -
  from before have xs: "convert_loop xs [] = Inr (models d1)"
    by (auto simp: convert_schema_def split: sum.splits)
  from after have ys: "convert_loop ys [] = Inr (models d2)"
    by (auto simp: convert_schema_def split: sum.splits)
  let ?m = "\<lparr>m_name = name, m_tests = None, m_columns = None\<rparr>"
  have gen: "generate_model_dict (init_builder name) = Inr ?m"
    by (simp add: generate_model_dict_def init_builder_def)
  have "convert_loop ((name, Dict kvs) # ys) acc = convert_loop ys (acc @ [?m])" for acc
    using empty gen by (simp add: populate_from_constraints_def)
  moreover have "convert_loop ys (models d1 @ [?m]) = Inr ((models d1 @ [?m]) @ models d2)"
    by (subst convert_loop_acc) (simp add: ys)
  ultimately show ?thesis
    by (simp add: convert_schema_def convert_loop_append xs)
qed

theorem empty_constraints_name_only_witness:
  "(dict_find (PyStr ''constraints'') [(PyStr ''constraints'', Dict [])] = Some (Dict [])
    \<and> convert_schema (Dict [(PyStr ''foo'', SAMPLE_FOO)]) = Inr \<lparr>version = 2, models = [expected_foo]\<rparr>
    \<and> convert_schema (Dict [(PyStr ''bar'', SAMPLE_BAR)]) = Inr \<lparr>version = 2, models = [expected_bar]\<rparr>)
   \<and> convert_schema
       (Dict ([(PyStr ''foo'', SAMPLE_FOO)]
              @ (PyStr ''baz'', Dict [(PyStr ''constraints'', Dict [])])
              # [(PyStr ''bar'', SAMPLE_BAR)])) =
     Inr \<lparr>version = 2,
          models = [expected_foo, \<lparr>m_name = PyStr ''baz'', m_tests = None, m_columns = None\<rparr>,
                    expected_bar]\<rparr>"
proof -
  have h: "dict_find (PyStr ''constraints'') [(PyStr ''constraints'', Dict [])] = Some (Dict [])"
    by simp
  from empty_constraints_name_only [OF h foo_alone bar_alone, of "PyStr ''baz''"]
  have "convert_schema
       (Dict ([(PyStr ''foo'', SAMPLE_FOO)]
              @ (PyStr ''baz'', Dict [(PyStr ''constraints'', Dict [])])
              # [(PyStr ''bar'', SAMPLE_BAR)])) =
     Inr \<lparr>version = 2,
          models = [expected_foo, \<lparr>m_name = PyStr ''baz'', m_tests = None, m_columns = None\<rparr>,
                    expected_bar]\<rparr>"
    by simp
  with h foo_alone bar_alone show ?thesis
    by (intro conjI)
qed

end
